theory Spec2Isabelle
  imports Complex_Main "HOL-Library.Word"
begin

text \<open>
  The todo board of \<^verbatim>\<open>scripts/newtab.js\<close>: the classes \<open>TodoGroup\<close>, \<open>TodoItem\<close> and
  \<open>TodoManager\<close>, with \<^verbatim>\<open>chrome.storage.sync\<close> as an explicit store. Every method is a
  function of its arguments, the object it is called on, and what it reads from the host
  (the clock, the random source, the store); an exception is a result value. The
  operations of a manager run one after the other: calls that overlap in time are not
  modelled. Logging is left out, except where evaluating a log argument can raise.
\<close>

section \<open>JavaScript values\<close>

text \<open>
  A JavaScript string is a sequence of 16-bit code units; \<open>length\<close> counts code units,
  as \<^verbatim>\<open>String.prototype.length\<close> does. \<open>js\<close> embeds an ASCII literal of the source.
\<close>

type_synonym jsstring = "16 word list"

definition js :: "string \<Rightarrow> jsstring" where
  "js s = map of_char s"

text \<open>
  Numbers are the values of IEEE doubles: \<open>NaN\<close>, the two infinities and the finite
  values, read as reals. The two zeros are identified (both are falsy, and nothing in
  the program tells them apart).
\<close>

datatype jsnum = NaN | NegInf | Fin real | PosInf

text \<open>
  The values the program receives from its callers and from \<^verbatim>\<open>chrome.storage.sync\<close>:
  \<^verbatim>\<open>undefined\<close>, \<^verbatim>\<open>null\<close>, booleans, numbers, strings, arrays and plain objects (own
  properties in an association list, the first binding of a key being the property).
  Functions, symbols and objects with accessors are outside the model.
\<close>

datatype jsval =
    JUndefined
  | JNull
  | JBool bool
  | JNum jsnum
  | JStr jsstring
  | JArr "jsval list"
  | JObj "(jsstring \<times> jsval) list"

text \<open>\<^verbatim>\<open>!v\<close> is \<open>\<not> ToBoolean v\<close>.\<close>

fun ToBoolean :: "jsval \<Rightarrow> bool" where
  "ToBoolean JUndefined = False"
| "ToBoolean JNull = False"
| "ToBoolean (JBool b) = b"
| "ToBoolean (JNum n) = (n \<noteq> NaN \<and> n \<noteq> Fin 0)"
| "ToBoolean (JStr s) = (s \<noteq> [])"
| "ToBoolean (JArr xs) = True"
| "ToBoolean (JObj fs) = True"

text \<open>
  \<^verbatim>\<open>a === b\<close>. Arrays and objects are equal only to themselves; the model has no
  object identities, and takes an array or object handed in by a caller to be distinct
  from every one the program holds.
\<close>

fun strict_eq :: "jsval \<Rightarrow> jsval \<Rightarrow> bool" where
  "strict_eq JUndefined JUndefined = True"
| "strict_eq JNull JNull = True"
| "strict_eq (JBool a) (JBool b) = (a = b)"
| "strict_eq (JNum a) (JNum b) = (a \<noteq> NaN \<and> a = b)"
| "strict_eq (JStr a) (JStr b) = (a = b)"
| "strict_eq a b = False"

text \<open>\<^verbatim>\<open>data.key\<close> on a value that passed \<^verbatim>\<open>typeof data === 'object'\<close>.\<close>

fun get_prop :: "jsval \<Rightarrow> jsstring \<Rightarrow> jsval" where
  "get_prop (JObj fs) k = (case map_of fs k of None \<Rightarrow> JUndefined | Some v \<Rightarrow> v)"
| "get_prop v k = JUndefined"

text \<open>
  \<^verbatim>\<open>String.prototype.trim\<close> strips the code units of \<^verbatim>\<open>WhiteSpace\<close> and
  \<^verbatim>\<open>LineTerminator\<close> from both ends.
\<close>

definition is_ws :: "16 word \<Rightarrow> bool" where
  "is_ws c = (c \<in> {0x09, 0x0A, 0x0B, 0x0C, 0x0D, 0x20, 0xA0, 0x1680, 0x2028, 0x2029,
                   0x202F, 0x205F, 0x3000, 0xFEFF} \<or> (0x2000 \<le> c \<and> c \<le> 0x200A))"

definition trim :: "jsstring \<Rightarrow> jsstring" where
  "trim s = rev (dropWhile is_ws (rev (dropWhile is_ws s)))"

text \<open>\<^verbatim>\<open>n.toString(36)\<close> for an integral \<open>n\<close>, as \<^verbatim>\<open>Date.now()\<close> is.\<close>

definition digit36 :: "nat \<Rightarrow> 16 word" where
  "digit36 d = (if d < 10 then of_nat (48 + d) else of_nat (87 + d))"

fun digits36 :: "nat \<Rightarrow> jsstring" where
  "digits36 n = (if n < 36 then [digit36 n] else digits36 (n div 36) @ [digit36 (n mod 36)])"

definition toString36 :: "int \<Rightarrow> jsstring" where
  "toString36 i = (if i < 0 then 0x2D # digits36 (nat (- i)) else digits36 (nat i))"

section \<open>Configuration and errors\<close>

definition MAX_TODO_LENGTH :: nat where
  "MAX_TODO_LENGTH = 200"

definition MAX_GROUP_NAME_LENGTH :: nat where
  "MAX_GROUP_NAME_LENGTH = 50"

text \<open>
  The exception classes of the source, each with its message. \<open>TypeError\<close> is what the
  language raises on a call of a missing method.
\<close>

datatype error =
    TodoValidationError string
  | StorageError string
  | TypeError

text \<open>
  What one constructor call reads from the host: \<^verbatim>\<open>Date.now()\<close> and
  \<^verbatim>\<open>Math.random().toString(36).substr(2)\<close> in \<^verbatim>\<open>generateId\<close>, and the two
  \<^verbatim>\<open>new Date().toISOString()\<close> readings for \<^verbatim>\<open>createdAt\<close> and \<^verbatim>\<open>updatedAt\<close>.
\<close>

record reads =
  Date_now :: int
  Math_random :: jsstring
  createdAt_now :: jsstring
  updatedAt_now :: jsstring

section \<open>Conversion to a number\<close>

text \<open>
  Converting an array or a plain object to a primitive. None of the values is a
  function, so an own property \<^verbatim>\<open>toString\<close> of an object hides
  \<^verbatim>\<open>Object.prototype.toString\<close> and is not callable, and \<^verbatim>\<open>valueOf\<close> yields no
  primitive: the conversion raises \<^verbatim>\<open>TypeError\<close>. An object without that property
  converts to \<^verbatim>\<open>"[object Object]"\<close>. An array converts to the strings of its elements,
  joined (\<^verbatim>\<open>undefined\<close> and \<^verbatim>\<open>null\<close> as the empty string), and raises when the
  conversion of an element does.
\<close>

fun toString_throws :: "jsval \<Rightarrow> bool" where
  "toString_throws (JObj fs) = (map_of fs (js ''toString'') \<noteq> None)"
| "toString_throws (JArr xs) = list_ex toString_throws xs"
| "toString_throws v = False"

text \<open>
  \<^verbatim>\<open>Number(v)\<close>. On \<^verbatim>\<open>undefined\<close>, \<^verbatim>\<open>null\<close>, booleans and numbers the result is fixed by the
  language, and so is \<open>NaN\<close> for \<^verbatim>\<open>"[object Object]"\<close>. On a string, and on the string
  an array converts to, it is what the host's string-to-number parser reads, which is
  taken as the parameter \<open>host\<close>.
\<close>

fun ToNumber :: "(jsval \<Rightarrow> jsnum) \<Rightarrow> jsval \<Rightarrow> error + jsnum" where
  "ToNumber host JUndefined = Inr NaN"
| "ToNumber host JNull = Inr (Fin 0)"
| "ToNumber host (JBool b) = Inr (if b then Fin 1 else Fin 0)"
| "ToNumber host (JNum n) = Inr n"
| "ToNumber host (JStr s) = Inr (host (JStr s))"
| "ToNumber host (JArr xs) =
     (if toString_throws (JArr xs) then Inl TypeError else Inr (host (JArr xs)))"
| "ToNumber host (JObj fs) = (if toString_throws (JObj fs) then Inl TypeError else Inr NaN)"

section \<open>TodoGroup\<close>

record TodoGroup =
  g_id :: jsval
  g_name :: jsstring
  g_position :: jsnum
  g_createdAt :: jsstring
  g_updatedAt :: jsstring

definition validateName :: "jsval \<Rightarrow> error + unit" where
  "validateName name =
     (case name of
        JStr s \<Rightarrow>
          if s = [] then Inl (TodoValidationError ''Group name must be a non-empty string'')
          else if length (trim s) = 0
            then Inl (TodoValidationError ''Group name cannot be empty or whitespace only'')
          else if length (trim s) > MAX_GROUP_NAME_LENGTH
            then Inl (TodoValidationError ''Group name cannot exceed 50 characters'')
          else Inr ()
      | _ \<Rightarrow> Inl (TodoValidationError ''Group name must be a non-empty string''))"

definition generateId_group :: "reads \<Rightarrow> jsstring" where
  "generateId_group r = js ''group_'' @ toString36 (Date_now r) @ Math_random r"

text \<open>\<^verbatim>\<open>Number(position) || 0\<close>.\<close>

definition Number_or_0 :: "(jsval \<Rightarrow> jsnum) \<Rightarrow> jsval \<Rightarrow> error + jsnum" where
  "Number_or_0 host v =
     (case ToNumber host v of
        Inl e \<Rightarrow> Inl e
      | Inr n \<Rightarrow> Inr (if ToBoolean (JNum n) then n else Fin 0))"

text \<open>
  \<^verbatim>\<open>constructor(name, position = 0, id = null)\<close>: an argument that is \<^verbatim>\<open>undefined\<close> takes
  its default.
\<close>

definition TodoGroup_new ::
  "(jsval \<Rightarrow> jsnum) \<Rightarrow> reads \<Rightarrow> jsval \<Rightarrow> jsval \<Rightarrow> jsval \<Rightarrow> error + TodoGroup" where
  "TodoGroup_new host r name position ident =
     (let position' = (if position = JUndefined then JNum (Fin 0) else position);
          ident' = (if ident = JUndefined then JNull else ident)
      in case validateName name of
           Inl e \<Rightarrow> Inl e
         | Inr u \<Rightarrow>
             (case name of
                JStr s \<Rightarrow>
                  (case Number_or_0 host position' of
                     Inl e \<Rightarrow> Inl e
                   | Inr p \<Rightarrow>
                       Inr \<lparr> g_id = (if ToBoolean ident' then ident'
                                     else JStr (generateId_group r)),
                             g_name = trim s,
                             g_position = p,
                             g_createdAt = createdAt_now r,
                             g_updatedAt = updatedAt_now r \<rparr>)
              | _ \<Rightarrow> Inl TypeError))"

definition updateName :: "jsstring \<Rightarrow> TodoGroup \<Rightarrow> jsval \<Rightarrow> error + TodoGroup" where
  "updateName now g newName =
     (case validateName newName of
        Inl e \<Rightarrow> Inl e
      | Inr u \<Rightarrow>
          (case newName of
             JStr s \<Rightarrow> Inr (g\<lparr> g_name := trim s, g_updatedAt := now \<rparr>)
           | _ \<Rightarrow> Inl TypeError))"

definition updatePosition ::
  "(jsval \<Rightarrow> jsnum) \<Rightarrow> jsstring \<Rightarrow> TodoGroup \<Rightarrow> jsval \<Rightarrow> error + TodoGroup" where
  "updatePosition host now g newPosition =
     (case Number_or_0 host newPosition of
        Inl e \<Rightarrow> Inl e
      | Inr p \<Rightarrow> Inr (g\<lparr> g_position := p, g_updatedAt := now \<rparr>))"

definition TodoGroup_toJSON :: "TodoGroup \<Rightarrow> jsval" where
  "TodoGroup_toJSON g =
     JObj [(js ''id'', g_id g),
           (js ''name'', JStr (g_name g)),
           (js ''position'', JNum (g_position g)),
           (js ''createdAt'', JStr (g_createdAt g)),
           (js ''updatedAt'', JStr (g_updatedAt g))]"

text \<open>\<^verbatim>\<open>typeof data === 'object'\<close> holds of \<^verbatim>\<open>null\<close>, arrays and objects.\<close>

fun typeof_object :: "jsval \<Rightarrow> bool" where
  "typeof_object JNull = True"
| "typeof_object (JArr xs) = True"
| "typeof_object (JObj fs) = True"
| "typeof_object v = False"

definition TodoGroup_fromJSON :: "(jsval \<Rightarrow> jsnum) \<Rightarrow> reads \<Rightarrow> jsval \<Rightarrow> error + TodoGroup" where
  "TodoGroup_fromJSON host r data =
     (if \<not> ToBoolean data \<or> \<not> typeof_object data
      then Inl (TodoValidationError ''Invalid group data format'')
      else TodoGroup_new host r (get_prop data (js ''name''))
             (get_prop data (js ''position'')) (get_prop data (js ''id'')))"

section \<open>TodoItem\<close>

record TodoItem =
  t_id :: jsval
  t_text :: jsstring
  t_groupId :: jsval
  t_completed :: bool
  t_description :: jsval
  t_createdAt :: jsstring
  t_updatedAt :: jsstring

definition validateText :: "jsval \<Rightarrow> error + unit" where
  "validateText text =
     (case text of
        JStr s \<Rightarrow>
          if s = [] then Inl (TodoValidationError ''Todo text must be a non-empty string'')
          else if length (trim s) = 0
            then Inl (TodoValidationError ''Todo text cannot be empty or whitespace only'')
          else if length (trim s) > MAX_TODO_LENGTH
            then Inl (TodoValidationError ''Todo text cannot exceed 200 characters'')
          else Inr ()
      | _ \<Rightarrow> Inl (TodoValidationError ''Todo text must be a non-empty string''))"

definition validateGroupId :: "jsval \<Rightarrow> error + unit" where
  "validateGroupId groupId =
     (case groupId of
        JStr s \<Rightarrow>
          if s = [] then Inl (TodoValidationError ''Group ID must be a non-empty string'')
          else Inr ()
      | _ \<Rightarrow> Inl (TodoValidationError ''Group ID must be a non-empty string''))"

definition generateId_item :: "reads \<Rightarrow> jsstring" where
  "generateId_item r = toString36 (Date_now r) @ Math_random r"

text \<open>
  \<^verbatim>\<open>constructor(text, groupId, completed = false, description = '', id = null)\<close>.
\<close>

definition TodoItem_new ::
  "reads \<Rightarrow> jsval \<Rightarrow> jsval \<Rightarrow> jsval \<Rightarrow> jsval \<Rightarrow> jsval \<Rightarrow> error + TodoItem" where
  "TodoItem_new r text groupId completed description ident =
     (let completed' = (if completed = JUndefined then JBool False else completed);
          description' = (if description = JUndefined then JStr [] else description);
          ident' = (if ident = JUndefined then JNull else ident)
      in case validateText text of
           Inl e \<Rightarrow> Inl e
         | Inr u \<Rightarrow>
             (case validateGroupId groupId of
                Inl e \<Rightarrow> Inl e
              | Inr u' \<Rightarrow>
                  (case (text, groupId) of
                     (JStr s, JStr gid) \<Rightarrow>
                       Inr \<lparr> t_id = (if ToBoolean ident' then ident' else JStr (generateId_item r)),
                             t_text = trim s,
                             t_groupId = JStr gid,
                             t_completed = ToBoolean completed',
                             t_description =
                               (if ToBoolean description' then description' else JStr []),
                             t_createdAt = createdAt_now r,
                             t_updatedAt = updatedAt_now r \<rparr>
                   | _ \<Rightarrow> Inl TypeError)))"

definition updateText :: "jsstring \<Rightarrow> TodoItem \<Rightarrow> jsval \<Rightarrow> error + TodoItem" where
  "updateText now t newText =
     (case validateText newText of
        Inl e \<Rightarrow> Inl e
      | Inr u \<Rightarrow>
          (case newText of
             JStr s \<Rightarrow> Inr (t\<lparr> t_text := trim s, t_updatedAt := now \<rparr>)
           | _ \<Rightarrow> Inl TypeError))"

definition toggleCompletion :: "jsstring \<Rightarrow> TodoItem \<Rightarrow> TodoItem" where
  "toggleCompletion now t = t\<lparr> t_completed := \<not> t_completed t, t_updatedAt := now \<rparr>"

definition updateDescription :: "jsstring \<Rightarrow> TodoItem \<Rightarrow> jsval \<Rightarrow> TodoItem" where
  "updateDescription now t newDescription =
     t\<lparr> t_description := (if ToBoolean newDescription then newDescription else JStr []),
        t_updatedAt := now \<rparr>"

definition TodoItem_toJSON :: "TodoItem \<Rightarrow> jsval" where
  "TodoItem_toJSON t =
     JObj [(js ''id'', t_id t),
           (js ''text'', JStr (t_text t)),
           (js ''groupId'', t_groupId t),
           (js ''completed'', JBool (t_completed t)),
           (js ''description'', t_description t),
           (js ''createdAt'', JStr (t_createdAt t)),
           (js ''updatedAt'', JStr (t_updatedAt t))]"

definition TodoItem_fromJSON :: "reads \<Rightarrow> jsval \<Rightarrow> error + TodoItem" where
  "TodoItem_fromJSON r data =
     (if \<not> ToBoolean data \<or> \<not> typeof_object data
      then Inl (TodoValidationError ''Invalid todo data format'')
      else TodoItem_new r (get_prop data (js ''text'')) (get_prop data (js ''groupId''))
             (get_prop data (js ''completed''))
             (let d = get_prop data (js ''description'') in if ToBoolean d then d else JStr [])
             (get_prop data (js ''id'')))"

section \<open>Persistence: chrome.storage.sync\<close>

text \<open>
  The two keys of \<^verbatim>\<open>CONFIG\<close>: \<^verbatim>\<open>STORAGE_KEY\<close> (the todos) and \<^verbatim>\<open>GROUPS_STORAGE_KEY\<close>.
\<close>

datatype storage_key = STORAGE_KEY | GROUPS_STORAGE_KEY

text \<open>
  The store holds a value under each key (\<^verbatim>\<open>undefined\<close> when the key is absent). A call
  may be rejected by the host (quota, no connection): \<open>rejects s k\<close> says whether the
  \<open>k\<close>-th call is, and \<open>calls\<close> counts the calls issued so far. A rejected \<^verbatim>\<open>set\<close> stores
  nothing.
\<close>

record storage =
  items :: "storage_key \<Rightarrow> jsval"
  calls :: nat
  rejects :: "nat \<Rightarrow> bool"

definition sync_get :: "storage \<Rightarrow> storage_key \<Rightarrow> jsval option \<times> storage" where
  "sync_get s k =
     (if rejects s (calls s) then (None, s\<lparr> calls := Suc (calls s) \<rparr>)
      else (Some (items s k), s\<lparr> calls := Suc (calls s) \<rparr>))"

definition sync_set :: "storage \<Rightarrow> storage_key \<Rightarrow> jsval \<Rightarrow> bool \<times> storage" where
  "sync_set s k v =
     (if rejects s (calls s) then (False, s\<lparr> calls := Suc (calls s) \<rparr>)
      else (True, s\<lparr> items := (items s)(k := v), calls := Suc (calls s) \<rparr>))"

section \<open>Arrays\<close>

text \<open>\<^verbatim>\<open>Array.prototype.findIndex\<close>, with \<open>None\<close> for \<^verbatim>\<open>-1\<close>.\<close>

fun findIndex :: "('a \<Rightarrow> bool) \<Rightarrow> 'a list \<Rightarrow> nat option" where
  "findIndex P [] = None"
| "findIndex P (x # xs) = (if P x then Some 0 else map_option Suc (findIndex P xs))"

text \<open>\<^verbatim>\<open>xs.splice(i, 1)\<close>.\<close>

definition splice1 :: "nat \<Rightarrow> 'a list \<Rightarrow> 'a list" where
  "splice1 i xs = take i xs @ drop (Suc i) xs"

text \<open>
  \<^verbatim>\<open>a - b\<close> on numbers. On finite values the double result is read as the real
  difference, which has the same sign.
\<close>

fun js_minus :: "jsnum \<Rightarrow> jsnum \<Rightarrow> jsnum" where
  "js_minus NaN b = NaN"
| "js_minus a NaN = NaN"
| "js_minus PosInf PosInf = NaN"
| "js_minus NegInf NegInf = NaN"
| "js_minus PosInf b = PosInf"
| "js_minus NegInf b = NegInf"
| "js_minus (Fin a) PosInf = NegInf"
| "js_minus (Fin a) NegInf = PosInf"
| "js_minus (Fin a) (Fin b) = Fin (a - b)"

fun gt0 :: "jsnum \<Rightarrow> bool" where
  "gt0 PosInf = True"
| "gt0 (Fin x) = (0 < x)"
| "gt0 n = False"

text \<open>
  \<^verbatim>\<open>Array.prototype.sort(cmp)\<close>: a stable sort, an element moving behind another only
  when the comparator is positive on the pair (a \<^verbatim>\<open>NaN\<close> result counts as zero).
\<close>

fun insort_cmp :: "('a \<Rightarrow> 'a \<Rightarrow> jsnum) \<Rightarrow> 'a \<Rightarrow> 'a list \<Rightarrow> 'a list" where
  "insort_cmp cmp x [] = [x]"
| "insort_cmp cmp x (y # ys) =
     (if gt0 (cmp x y) then y # insort_cmp cmp x ys else x # y # ys)"

definition Array_sort :: "('a \<Rightarrow> 'a \<Rightarrow> jsnum) \<Rightarrow> 'a list \<Rightarrow> 'a list" where
  "Array_sort cmp xs = foldr (insort_cmp cmp) xs []"

text \<open>The comparator \<^verbatim>\<open>(a, b) => a.position - b.position\<close>.\<close>

definition by_position :: "TodoGroup \<Rightarrow> TodoGroup \<Rightarrow> jsnum" where
  "by_position a b = js_minus (g_position a) (g_position b)"

section \<open>TodoManager\<close>

record TodoManager =
  todos :: "TodoItem list"
  groups :: "TodoGroup list"
  currentFilter :: jsstring
  isInitialized :: bool

definition TodoManager_new :: TodoManager where
  "TodoManager_new =
     \<lparr> todos = [], groups = [], currentFilter = js ''active'', isInitialized = False \<rparr>"

text \<open>
  The handler \<^verbatim>\<open>if (error instanceof TodoValidationError) throw error; throw new
  StorageError(msg)\<close>.
\<close>

fun rethrow :: "string \<Rightarrow> error \<Rightarrow> error" where
  "rethrow msg (TodoValidationError x) = TodoValidationError x"
| "rethrow msg e = StorageError msg"

text \<open>
  Every operation takes the manager and the store and returns its result (or the
  exception it throws) with both as it leaves them: a mutation made before a throw stays.
\<close>

definition saveGroups :: "TodoManager \<Rightarrow> storage \<Rightarrow> (error + unit) \<times> storage" where
  "saveGroups m s =
     (case sync_set s GROUPS_STORAGE_KEY (JArr (map TodoGroup_toJSON (groups m))) of
        (True, s') \<Rightarrow> (Inr (), s')
      | (False, s') \<Rightarrow> (Inl (StorageError ''Failed to save groups to storage''), s'))"

definition saveTodos :: "TodoManager \<Rightarrow> storage \<Rightarrow> (error + unit) \<times> storage" where
  "saveTodos m s =
     (case sync_set s STORAGE_KEY (JArr (map TodoItem_toJSON (todos m))) of
        (True, s') \<Rightarrow> (Inr (), s')
      | (False, s') \<Rightarrow> (Inl (StorageError ''Failed to save todos to storage''), s'))"

text \<open>
  \<^verbatim>\<open>stored.map(data => { try { return fromJSON(data) } catch { return null } })
  .filter(x => x !== null)\<close>; \<open>rs i\<close> is what the constructor reads from the host for
  the record at index \<open>i\<close>.
\<close>

definition parse_groups ::
  "(jsval \<Rightarrow> jsnum) \<Rightarrow> (nat \<Rightarrow> reads) \<Rightarrow> jsval list \<Rightarrow> TodoGroup list" where
  "parse_groups host rs xs =
     List.map_filter
       (\<lambda>(i, data). case TodoGroup_fromJSON host (rs i) data of
                       Inl e \<Rightarrow> None | Inr g \<Rightarrow> Some g)
       (enumerate 0 xs)"

definition parse_todos :: "(nat \<Rightarrow> reads) \<Rightarrow> jsval list \<Rightarrow> TodoItem list" where
  "parse_todos rs xs =
     List.map_filter
       (\<lambda>(i, data). case TodoItem_fromJSON (rs i) data of
                       Inl e \<Rightarrow> None | Inr t \<Rightarrow> Some t)
       (enumerate 0 xs)"

text \<open>
  \<^verbatim>\<open>result[key] || []\<close>, then \<^verbatim>\<open>.map\<close>: a stored value that is truthy and not an array
  has no \<^verbatim>\<open>map\<close> method, and the \<^verbatim>\<open>TypeError\<close> becomes the \<^verbatim>\<open>StorageError\<close>.
\<close>

definition loadGroups ::
  "(jsval \<Rightarrow> jsnum) \<Rightarrow> (nat \<Rightarrow> reads) \<Rightarrow> TodoManager \<Rightarrow> storage
     \<Rightarrow> (error + unit) \<times> TodoManager \<times> storage" where
  "loadGroups host rs m s =
     (case sync_get s GROUPS_STORAGE_KEY of
        (None, s') \<Rightarrow> (Inl (StorageError ''Failed to load groups from storage''), m, s')
      | (Some v, s') \<Rightarrow>
          (case (if ToBoolean v then v else JArr []) of
             JArr xs \<Rightarrow> (Inr (), m\<lparr> groups := parse_groups host rs xs \<rparr>, s')
           | _ \<Rightarrow> (Inl (StorageError ''Failed to load groups from storage''), m, s')))"

definition loadTodos ::
  "(nat \<Rightarrow> reads) \<Rightarrow> TodoManager \<Rightarrow> storage \<Rightarrow> (error + unit) \<times> TodoManager \<times> storage" where
  "loadTodos rs m s =
     (case sync_get s STORAGE_KEY of
        (None, s') \<Rightarrow> (Inl (StorageError ''Failed to load todos from storage''), m, s')
      | (Some v, s') \<Rightarrow>
          (case (if ToBoolean v then v else JArr []) of
             JArr xs \<Rightarrow> (Inr (), m\<lparr> todos := parse_todos rs xs \<rparr>, s')
           | _ \<Rightarrow> (Inl (StorageError ''Failed to load todos from storage''), m, s')))"

text \<open>\<^verbatim>\<open>addGroup(name, position = null)\<close>.\<close>

definition addGroup ::
  "(jsval \<Rightarrow> jsnum) \<Rightarrow> reads \<Rightarrow> TodoManager \<Rightarrow> storage \<Rightarrow> jsval \<Rightarrow> jsval
     \<Rightarrow> (error + TodoGroup) \<times> TodoManager \<times> storage" where
  "addGroup host r m s name position =
     (let position' = (if position = JUndefined then JNull else position);
          newPosition = (if position' \<noteq> JNull then position'
                         else JNum (Fin (real (length (groups m)))))
      in case TodoGroup_new host r name newPosition JUndefined of
           Inl e \<Rightarrow> (Inl (rethrow ''Failed to add group'' e), m, s)
         | Inr grp \<Rightarrow>
             (let m' = m\<lparr> groups := Array_sort by_position (groups m @ [grp]) \<rparr>
              in case saveGroups m' s of
                   (Inl e, s') \<Rightarrow> (Inl (rethrow ''Failed to add group'' e), m', s')
                 | (Inr u, s') \<Rightarrow> (Inr grp, m', s')))"

definition createDefaultGroup ::
  "(jsval \<Rightarrow> jsnum) \<Rightarrow> reads \<Rightarrow> TodoManager \<Rightarrow> storage
     \<Rightarrow> (error + TodoGroup) \<times> TodoManager \<times> storage" where
  "createDefaultGroup host r m s =
     (case addGroup host r m s (JStr (js ''To Do'')) JUndefined of
        (Inl e, m', s') \<Rightarrow> (Inl (StorageError ''Failed to create default group''), m', s')
      | (Inr defaultGroup, m', s') \<Rightarrow> (Inr defaultGroup, m', s'))"

text \<open>
  \<open>rg\<close> and \<open>rt\<close> are the host readings of the constructor calls of the two loads, \<open>rd\<close>
  those of the default group's.
\<close>

definition initialize ::
  "(jsval \<Rightarrow> jsnum) \<Rightarrow> (nat \<Rightarrow> reads) \<Rightarrow> (nat \<Rightarrow> reads) \<Rightarrow> reads \<Rightarrow> TodoManager \<Rightarrow> storage
     \<Rightarrow> (error + unit) \<times> TodoManager \<times> storage" where
  "initialize host rg rt rd m s =
     (case loadGroups host rg m s of
        (Inl e, m1, s1) \<Rightarrow> (Inl (StorageError ''Failed to initialize todo manager''), m1, s1)
      | (Inr u, m1, s1) \<Rightarrow>
          (case loadTodos rt m1 s1 of
             (Inl e, m2, s2) \<Rightarrow>
               (Inl (StorageError ''Failed to initialize todo manager''), m2, s2)
           | (Inr u', m2, s2) \<Rightarrow>
               (if length (groups m2) = 0
                then (case createDefaultGroup host rd m2 s2 of
                        (Inl e, m3, s3) \<Rightarrow>
                          (Inl (StorageError ''Failed to initialize todo manager''), m3, s3)
                      | (Inr g, m3, s3) \<Rightarrow> (Inr (), m3\<lparr> isInitialized := True \<rparr>, s3))
                else (Inr (), m2\<lparr> isInitialized := True \<rparr>, s2))))"

text \<open>
  \<^verbatim>\<open>this.groups.forEach((group, index) => group.updatePosition(index))\<close>, from \<open>index\<close>
  on; \<open>nows index\<close> is the clock reading of the call at \<open>index\<close>. The groups are
  updated in place, so a call that throws leaves the ones before it updated; the result
  is the exception, if any, and the array.
\<close>

fun forEach_updatePosition ::
  "(jsval \<Rightarrow> jsnum) \<Rightarrow> (nat \<Rightarrow> jsstring) \<Rightarrow> nat \<Rightarrow> TodoGroup list
     \<Rightarrow> error option \<times> TodoGroup list" where
  "forEach_updatePosition host nows index [] = (None, [])"
| "forEach_updatePosition host nows index (grp # rest) =
     (case updatePosition host (nows index) grp (JNum (Fin (real index))) of
        Inl e \<Rightarrow> (Some e, grp # rest)
      | Inr grp' \<Rightarrow>
          (case forEach_updatePosition host nows (Suc index) rest of
             (e, rest') \<Rightarrow> (e, grp' # rest')))"

text \<open>The array after the loop.\<close>

definition renumber ::
  "(jsval \<Rightarrow> jsnum) \<Rightarrow> (nat \<Rightarrow> jsstring) \<Rightarrow> TodoGroup list \<Rightarrow> TodoGroup list" where
  "renumber host nows gs = snd (forEach_updatePosition host nows 0 gs)"

text \<open>
  \<^verbatim>\<open>Promise.all([this.saveGroups(), this.saveTodos()])\<close> issues both writes before it
  waits for either.
\<close>

definition removeGroup ::
  "(jsval \<Rightarrow> jsnum) \<Rightarrow> (nat \<Rightarrow> jsstring) \<Rightarrow> TodoManager \<Rightarrow> storage \<Rightarrow> jsval
     \<Rightarrow> (error + bool) \<times> TodoManager \<times> storage" where
  "removeGroup host nows m s groupId =
     (case findIndex (\<lambda>grp. strict_eq (g_id grp) groupId) (groups m) of
        None \<Rightarrow> (Inr False, m, s)
      | Some groupIndex \<Rightarrow>
          (let m1 = m\<lparr> todos := filter (\<lambda>todo. \<not> strict_eq (t_groupId todo) groupId) (todos m) \<rparr>;
               m2 = m1\<lparr> groups := splice1 groupIndex (groups m1) \<rparr>;
               m3 = m2\<lparr> groups := renumber host nows (groups m2) \<rparr>
           in case fst (forEach_updatePosition host nows 0 (groups m2)) of
                Some e \<Rightarrow> (Inl (StorageError ''Failed to remove group''), m3, s)
              | None \<Rightarrow>
                  (let (r1, s1) = saveGroups m3 s;
                       (r2, s2) = saveTodos m3 s1
                   in if isl r1 \<or> isl r2
                      then (Inl (StorageError ''Failed to remove group''), m3, s2)
                      else (Inr True, m3, s2))))"

text \<open>
  \<^verbatim>\<open>text.substring(0, 50)\<close> in the argument of the first \<^verbatim>\<open>Logger.info\<close>: only a string
  has the method.
\<close>

fun substring_call :: "jsval \<Rightarrow> error + unit" where
  "substring_call (JStr s) = Inr ()"
| "substring_call v = Inl TypeError"

definition addTodo ::
  "reads \<Rightarrow> TodoManager \<Rightarrow> storage \<Rightarrow> jsval \<Rightarrow> jsval
     \<Rightarrow> (error + TodoItem) \<times> TodoManager \<times> storage" where
  "addTodo r m s text groupId =
     (case substring_call text of
        Inl e \<Rightarrow> (Inl (rethrow ''Failed to add todo item'' e), m, s)
      | Inr u \<Rightarrow>
          (case find (\<lambda>g. strict_eq (g_id g) groupId) (groups m) of
             None \<Rightarrow>
               (Inl (rethrow ''Failed to add todo item'' (TodoValidationError ''Group not found'')),
                m, s)
           | Some grp \<Rightarrow>
               (case TodoItem_new r text groupId JUndefined JUndefined JUndefined of
                  Inl e \<Rightarrow> (Inl (rethrow ''Failed to add todo item'' e), m, s)
                | Inr todo \<Rightarrow>
                    (let m' = m\<lparr> todos := todos m @ [todo] \<rparr>
                     in case saveTodos m' s of
                          (Inl e, s') \<Rightarrow> (Inl (rethrow ''Failed to add todo item'' e), m', s')
                        | (Inr u', s') \<Rightarrow> (Inr todo, m', s')))))"

text \<open>
  \<^verbatim>\<open>this.todos.find(...)\<close> returns the first matching object of the array, which the code
  then mutates in place: the element at the first matching index is replaced.
\<close>

definition moveTodo ::
  "jsstring \<Rightarrow> TodoManager \<Rightarrow> storage \<Rightarrow> jsval \<Rightarrow> jsval
     \<Rightarrow> (error + bool) \<times> TodoManager \<times> storage" where
  "moveTodo now m s todoId newGroupId =
     (case find (\<lambda>g. strict_eq (g_id g) newGroupId) (groups m) of
        None \<Rightarrow> (Inr False, m, s)
      | Some newGroup \<Rightarrow>
          (case findIndex (\<lambda>todo. strict_eq (t_id todo) todoId) (todos m) of
             None \<Rightarrow> (Inr False, m, s)
           | Some i \<Rightarrow>
               (let todo = todos m ! i
                in if strict_eq (t_groupId todo) newGroupId then (Inr True, m, s)
                   else
                     (let m' = m\<lparr> todos := (todos m)
                                  [i := todo\<lparr> t_groupId := newGroupId, t_updatedAt := now \<rparr>] \<rparr>
                      in case saveTodos m' s of
                           (Inl e, s') \<Rightarrow>
                             (Inl (StorageError ''Failed to move todo to new group''), m', s')
                         | (Inr u, s') \<Rightarrow> (Inr True, m', s')))))"

definition toggleTodo ::
  "jsstring \<Rightarrow> TodoManager \<Rightarrow> storage \<Rightarrow> jsval \<Rightarrow> (error + bool) \<times> TodoManager \<times> storage" where
  "toggleTodo now m s ident =
     (case findIndex (\<lambda>todo. strict_eq (t_id todo) ident) (todos m) of
        None \<Rightarrow> (Inr False, m, s)
      | Some i \<Rightarrow>
          (let m' = m\<lparr> todos := (todos m)[i := toggleCompletion now (todos m ! i)] \<rparr>
           in case saveTodos m' s of
                (Inl e, s') \<Rightarrow> (Inl (StorageError ''Failed to toggle todo completion''), m', s')
              | (Inr u, s') \<Rightarrow> (Inr True, m', s')))"

definition clearCompleted ::
  "TodoManager \<Rightarrow> storage \<Rightarrow> (error + nat) \<times> TodoManager \<times> storage" where
  "clearCompleted m s =
     (let completedCount = length (filter (\<lambda>todo. t_completed todo) (todos m));
          m' = m\<lparr> todos := filter (\<lambda>todo. \<not> t_completed todo) (todos m) \<rparr>
      in case saveTodos m' s of
           (Inl e, s') \<Rightarrow> (Inl (StorageError ''Failed to clear completed todos''), m', s')
         | (Inr u, s') \<Rightarrow> (Inr completedCount, m', s'))"

definition getGroups :: "TodoManager \<Rightarrow> TodoGroup list" where
  "getGroups m = Array_sort by_position (groups m)"

definition getTodosForGroup :: "TodoManager \<Rightarrow> jsval \<Rightarrow> TodoItem list" where
  "getTodosForGroup m groupId = filter (\<lambda>todo. strict_eq (t_groupId todo) groupId) (todos m)"

section \<open>Notions used in the statements\<close>

text \<open>
  The groups array is in position order when no group compares greater, under the
  comparator of \<open>addGroup\<close> and \<open>getGroups\<close>, than one behind it.
\<close>

definition position_ordered :: "TodoGroup list \<Rightarrow> bool" where
  "position_ordered gs = sorted_wrt (\<lambda>a b. \<not> gt0 (by_position a b)) gs"

text \<open>No group has the position \<open>NaN\<close>: the constructor and \<open>updatePosition\<close> never store it.\<close>

definition positions_defined :: "TodoGroup list \<Rightarrow> bool" where
  "positions_defined gs = list_all (\<lambda>g. g_position g \<noteq> NaN) gs"

text \<open>The group \<open>createDefaultGroup\<close> builds on an empty board, from its host readings.\<close>

definition default_group :: "reads \<Rightarrow> TodoGroup" where
  "default_group r =
     \<lparr> g_id = JStr (generateId_group r), g_name = js ''To Do'', g_position = Fin 0,
       g_createdAt = createdAt_now r, g_updatedAt = updatedAt_now r \<rparr>"

section \<open>Example data\<close>

text \<open>
  The only string the host's parser is given in the examples is \<^verbatim>\<open>'left'\<close>, which is no
  number; \<open>ex_host\<close>, which reads \<open>NaN\<close> from everything, stands for it.
\<close>

definition ex_host :: "jsval \<Rightarrow> jsnum" where
  "ex_host v = NaN"

definition ex_reads :: "int \<Rightarrow> string \<Rightarrow> string \<Rightarrow> reads" where
  "ex_reads ms rnd stamp =
     \<lparr> Date_now = ms, Math_random = js rnd, createdAt_now = js stamp, updatedAt_now = js stamp \<rparr>"

text \<open>An empty store that accepts every call.\<close>

definition ex_store :: storage where
  "ex_store = \<lparr> items = (\<lambda>k. JUndefined), calls = 0, rejects = (\<lambda>k. False) \<rparr>"

definition ex_group :: TodoGroup where
  "ex_group =
     \<lparr> g_id = JStr (js ''group_loyw3v28k3j9x2''), g_name = js ''Work'', g_position = Fin 0,
       g_createdAt = js ''2023-11-14T22:13:20.000Z'',
       g_updatedAt = js ''2023-11-14T22:13:20.000Z'' \<rparr>"

definition ex_todo :: TodoItem where
  "ex_todo =
     \<lparr> t_id = JStr (js ''loyw3v5nq8w2''), t_text = js ''Buy milk'',
       t_groupId = JStr (js ''group_loyw3v28k3j9x2''), t_completed = False,
       t_description = JStr [],
       t_createdAt = js ''2023-11-14T22:13:20.123Z'',
       t_updatedAt = js ''2023-11-14T22:13:20.123Z'' \<rparr>"

definition ex_manager :: TodoManager where
  "ex_manager =
     \<lparr> todos = [ex_todo], groups = [ex_group], currentFilter = js ''active'',
       isInitialized = True \<rparr>"

definition ex_done :: TodoItem where
  "ex_done =
     \<lparr> t_id = JStr (js ''loyw3v9zr1t7''), t_text = js ''Call the bank'',
       t_groupId = JStr (js ''group_loyw3v28k3j9x2''), t_completed = True,
       t_description = JStr (js ''before noon''),
       t_createdAt = js ''2023-11-14T22:13:20.279Z'',
       t_updatedAt = js ''2023-11-14T22:15:02.514Z'' \<rparr>"

definition ex_home :: TodoGroup where
  "ex_home =
     \<lparr> g_id = JStr (js ''group_loyw4b7mh7d1f0''), g_name = js ''Home'', g_position = Fin 1,
       g_createdAt = js ''2023-11-14T22:13:41.038Z'',
       g_updatedAt = js ''2023-11-14T22:13:41.038Z'' \<rparr>"

definition ex_errand :: TodoItem where
  "ex_errand =
     \<lparr> t_id = JStr (js ''loyw4c01u5m3''), t_text = js ''Water the plants'',
       t_groupId = JStr (js ''group_loyw4b7mh7d1f0''), t_completed = False,
       t_description = JStr [],
       t_createdAt = js ''2023-11-14T22:14:17.665Z'',
       t_updatedAt = js ''2023-11-14T22:14:17.665Z'' \<rparr>"

text \<open>A board of two groups in position order, with todos in both.\<close>

definition ex_board :: TodoManager where
  "ex_board =
     \<lparr> todos = [ex_done, ex_errand, ex_todo], groups = [ex_group, ex_home],
       currentFilter = js ''active'', isInitialized = True \<rparr>"

text \<open>
  A store whose group records are not in position order, the readings of a load from
  it, and the manager that \<open>initialize\<close> builds from it.
\<close>

definition ex_record :: "string \<Rightarrow> string \<Rightarrow> real \<Rightarrow> jsval" where
  "ex_record i n p =
     JObj [(js ''id'', JStr (js i)), (js ''name'', JStr (js n)), (js ''position'', JNum (Fin p)),
           (js ''createdAt'', JStr (js ''2023-11-14T22:13:20.000Z'')),
           (js ''updatedAt'', JStr (js ''2023-11-14T22:13:20.000Z''))]"

definition ex_loaded :: "string \<Rightarrow> string \<Rightarrow> real \<Rightarrow> TodoGroup" where
  "ex_loaded i n p =
     \<lparr> g_id = JStr (js i), g_name = js n, g_position = Fin p,
       g_createdAt = js ''2023-11-15T09:00:00.000Z'',
       g_updatedAt = js ''2023-11-15T09:00:00.000Z'' \<rparr>"

definition ex_unordered_store :: storage where
  "ex_unordered_store =
     ex_store\<lparr> items := (items ex_store)
       (GROUPS_STORAGE_KEY :=
          JArr [ex_record ''group_a'' ''Today'' 1, ex_record ''group_b'' ''Backlog'' 0,
                ex_record ''group_c'' ''Done'' 2]) \<rparr>"

definition ex_load_reads :: "nat \<Rightarrow> reads" where
  "ex_load_reads k = ex_reads 1700038800000 ''k3j9x2'' ''2023-11-15T09:00:00.000Z''"

definition ex_unordered :: TodoManager where
  "ex_unordered =
     \<lparr> todos = [],
       groups = [ex_loaded ''group_a'' ''Today'' 1, ex_loaded ''group_b'' ''Backlog'' 0,
                 ex_loaded ''group_c'' ''Done'' 2],
       currentFilter = js ''active'', isInitialized = True \<rparr>"

text \<open>A stored todo record with no description and a \<open>completed\<close> field that is a string.\<close>

definition ex_sparse_record :: jsval where
  "ex_sparse_record =
     JObj [(js ''text'', JStr (js ''Buy milk'')),
           (js ''groupId'', JStr (js ''group_loyw3v28k3j9x2'')),
           (js ''completed'', JStr (js ''yes''))]"

text \<open>
  A store whose one group record has the number 5 as its id, and the manager that
  \<open>initialize\<close> builds from it.
\<close>

definition ex_numeric_store :: storage where
  "ex_numeric_store =
     ex_store\<lparr> items := (items ex_store)
       (GROUPS_STORAGE_KEY :=
          JArr [JObj [(js ''id'', JNum (Fin 5)), (js ''name'', JStr (js ''Inbox'')),
                      (js ''position'', JNum (Fin 0))]]) \<rparr>"

definition ex_inbox :: TodoGroup where
  "ex_inbox =
     \<lparr> g_id = JNum (Fin 5), g_name = js ''Inbox'', g_position = Fin 0,
       g_createdAt = js ''2023-11-15T09:00:00.000Z'',
       g_updatedAt = js ''2023-11-15T09:00:00.000Z'' \<rparr>"

definition ex_numeric :: TodoManager where
  "ex_numeric =
     \<lparr> todos = [], groups = [ex_inbox], currentFilter = js ''active'', isInitialized = True \<rparr>"

section \<open>Basic facts\<close>

subsection \<open>Strings\<close>

lemma unat_of_char: "unat (of_char c :: 16 word) = of_char c"
proof -
  have "(of_char c :: 16 word) = of_nat (of_char c)"
    by (simp add: of_nat_of_char)
  moreover have "(of_char c :: nat) < 2 ^ 16"
    by (rule less_trans [OF nat_of_char_less_256]) simp
  ultimately show ?thesis
    by (simp add: unat_of_nat)
qed

lemma js_inject: "js a = js b \<longleftrightarrow> a = b"
proof -
  have "inj (of_char :: char \<Rightarrow> 16 word)"
  proof (rule injI)
    fix c d :: char
    assume "(of_char c :: 16 word) = of_char d"
    then have "unat (of_char c :: 16 word) = unat (of_char d :: 16 word)"
      by simp
    then show "c = d"
      by (simp add: unat_of_char)
  qed
  then show ?thesis
    by (simp add: js_def inj_map_eq_map)
qed

lemma js_append: "js a @ js b = js (a @ b)"
  by (simp add: js_def)

lemma js_Nil: "js s = [] \<longleftrightarrow> s = []"
  by (simp add: js_def)

lemma dropWhile_last_eq: "dropWhile P xs \<noteq> [] \<Longrightarrow> last (dropWhile P xs) = last xs"
proof -
  assume h: "dropWhile P xs \<noteq> []"
  have "last xs = last (takeWhile P xs @ dropWhile P xs)" by simp
  also have "\<dots> = last (dropWhile P xs)" using h by (rule last_appendR)
  finally show ?thesis by simp
qed

lemma trim_no_leading: "dropWhile is_ws (trim s) = trim s"
proof (cases "trim s = []")
  case True
  then show ?thesis by simp
next
  case False
  let ?d = "dropWhile is_ws s"
  let ?e = "dropWhile is_ws (rev ?d)"
  from False have e: "?e \<noteq> []" by (simp add: trim_def)
  have d: "?d \<noteq> []"
  proof
    assume a: "?d = []"
    have "?e = []" unfolding a by simp
    with e show False by simp
  qed
  have "hd (trim s) = last ?e" using e by (simp add: trim_def hd_rev)
  also have "\<dots> = last (rev ?d)" using e by (rule dropWhile_last_eq)
  also have "\<dots> = hd ?d" using d by (simp add: last_rev)
  finally have "hd (trim s) = hd ?d" .
  moreover have "\<not> is_ws (hd ?d)" using d by (rule hd_dropWhile)
  ultimately show ?thesis using False by (simp add: dropWhile_eq_self_iff)
qed

lemma trim_idem: "trim (trim s) = trim s"
proof -
  have "trim (trim s) = rev (dropWhile is_ws (rev (trim s)))"
    by (simp add: trim_def [of "trim s"] trim_no_leading)
  also have "\<dots> = trim s"
    by (simp add: trim_def)
  finally show ?thesis .
qed

lemma digits36_nonempty: "digits36 n \<noteq> []"
  by (subst digits36.simps) simp

lemma toString36_nonempty: "toString36 i \<noteq> []"
  by (simp add: toString36_def digits36_nonempty)

subsection \<open>Validation and construction\<close>

lemma validateName_Inr:
  "validateName name = Inr u \<longleftrightarrow>
     (\<exists>s. name = JStr s \<and> trim s \<noteq> [] \<and> length (trim s) \<le> MAX_GROUP_NAME_LENGTH)"
  by (cases name) (auto simp: validateName_def trim_def)

lemma validateText_Inr:
  "validateText text = Inr u \<longleftrightarrow>
     (\<exists>s. text = JStr s \<and> trim s \<noteq> [] \<and> length (trim s) \<le> MAX_TODO_LENGTH)"
  by (cases "text") (auto simp: validateText_def trim_def)

lemma validateGroupId_Inr:
  "validateGroupId groupId = Inr u \<longleftrightarrow> (\<exists>s. groupId = JStr s \<and> s \<noteq> [])"
  by (cases groupId) (auto simp: validateGroupId_def)

lemma Number_or_0_not_NaN: "Number_or_0 host v \<noteq> Inr NaN"
  by (simp add: Number_or_0_def split: sum.splits)

lemma Number_or_0_Inr: "Number_or_0 host v = Inr p \<Longrightarrow> p \<noteq> NaN"
  by (auto simp: Number_or_0_def split: sum.splits if_splits)

lemma Number_or_0_JNum:
  "Number_or_0 host (JNum n) = Inr (if n = NaN \<or> n = Fin 0 then Fin 0 else n)"
  by (simp add: Number_or_0_def)

lemma generateId_group_nonempty: "generateId_group r \<noteq> []"
  by (simp add: generateId_group_def js_def)

lemma generateId_item_nonempty: "generateId_item r \<noteq> []"
  by (simp add: generateId_item_def toString36_nonempty)

lemma TodoGroup_new_valid:
  assumes "validateName (JStr s) = Inr ()"
  shows "TodoGroup_new host r (JStr s) position ident =
           (case Number_or_0 host (if position = JUndefined then JNum (Fin 0) else position) of
              Inl e \<Rightarrow> Inl e
            | Inr p \<Rightarrow>
                Inr \<lparr> g_id = (if ToBoolean ident then ident else JStr (generateId_group r)),
                      g_name = trim s,
                      g_position = p,
                      g_createdAt = createdAt_now r,
                      g_updatedAt = updatedAt_now r \<rparr>)"
  using assms by (auto simp: TodoGroup_new_def Let_def split: sum.splits)

lemma TodoItem_new_valid:
  assumes "validateText (JStr txt) = Inr ()" and "validateGroupId groupId = Inr ()"
  shows "TodoItem_new r (JStr txt) groupId completed description ident =
           Inr \<lparr> t_id = (if ToBoolean ident then ident else JStr (generateId_item r)),
                 t_text = trim txt,
                 t_groupId = groupId,
                 t_completed = ToBoolean completed,
                 t_description = (if ToBoolean description then description else JStr []),
                 t_createdAt = createdAt_now r,
                 t_updatedAt = updatedAt_now r \<rparr>"
proof -
  from assms(2) obtain gid where gid: "groupId = JStr gid"
    by (auto simp: validateGroupId_Inr)
  show ?thesis
    using assms by (auto simp: TodoItem_new_def gid Let_def)
qed

lemma TodoGroup_new_invalid:
  "validateName name = Inl e \<Longrightarrow> TodoGroup_new host r name position ident = Inl e"
  by (simp add: TodoGroup_new_def Let_def)

lemma TodoItem_new_invalid:
  "validateText v = Inl e \<Longrightarrow> TodoItem_new r v groupId completed description ident = Inl e"
  by (simp add: TodoItem_new_def Let_def)

lemma TodoGroup_new_Inr:
  assumes "TodoGroup_new host r name position ident = Inr g"
  shows "ToBoolean (g_id g)" and "trim (g_name g) = g_name g" and "g_name g \<noteq> []"
    and "length (g_name g) \<le> MAX_GROUP_NAME_LENGTH" and "g_position g \<noteq> NaN"
    and "g_createdAt g = createdAt_now r" and "g_updatedAt g = updatedAt_now r"
  using assms
  by (auto simp: TodoGroup_new_def Let_def validateName_Inr trim_idem generateId_group_nonempty
        dest: Number_or_0_Inr split: sum.splits jsval.splits if_splits)

lemma TodoItem_new_Inr:
  assumes "TodoItem_new r text groupId completed description ident = Inr t"
  shows "ToBoolean (t_id t)" and "trim (t_text t) = t_text t" and "t_text t \<noteq> []"
    and "length (t_text t) \<le> MAX_TODO_LENGTH"
    and "validateGroupId (t_groupId t) = Inr ()"
    and "ToBoolean (t_description t) \<or> t_description t = JStr []"
    and "t_createdAt t = createdAt_now r" and "t_updatedAt t = updatedAt_now r"
  using assms
  by (auto simp: TodoItem_new_def Let_def validateText_Inr validateGroupId_Inr trim_idem
        generateId_item_nonempty split: sum.splits jsval.splits if_splits)

lemma get_prop_group [simp]:
  "get_prop (TodoGroup_toJSON g) (js ''id'') = g_id g"
  "get_prop (TodoGroup_toJSON g) (js ''name'') = JStr (g_name g)"
  "get_prop (TodoGroup_toJSON g) (js ''position'') = JNum (g_position g)"
  by (simp_all add: TodoGroup_toJSON_def js_inject)

lemma get_prop_item [simp]:
  "get_prop (TodoItem_toJSON t) (js ''id'') = t_id t"
  "get_prop (TodoItem_toJSON t) (js ''text'') = JStr (t_text t)"
  "get_prop (TodoItem_toJSON t) (js ''groupId'') = t_groupId t"
  "get_prop (TodoItem_toJSON t) (js ''completed'') = JBool (t_completed t)"
  "get_prop (TodoItem_toJSON t) (js ''description'') = t_description t"
  by (simp_all add: TodoItem_toJSON_def js_inject)

subsection \<open>Arrays\<close>

lemma findIndex_Some:
  "findIndex P xs = Some i \<Longrightarrow> i < length xs \<and> P (xs ! i)"
  by (induction xs arbitrary: i) (auto split: if_splits)

lemma find_findIndex:
  "find P xs = Some x \<longleftrightarrow> (\<exists>i. findIndex P xs = Some i \<and> xs ! i = x)"
  by (induction xs) auto

lemma findIndex_map_cong:
  "map P xs = map P ys \<Longrightarrow> findIndex P xs = findIndex P ys"
proof (induction xs arbitrary: ys)
  case Nil
  then show ?case by simp
next
  case (Cons x xs)
  from Cons.prems obtain y ys' where ys: "ys = y # ys'"
    by (cases ys) auto
  from Cons.prems ys have eq: "P x = P y" "map P xs = map P ys'"
    by simp_all
  from Cons.IH [OF eq(2)] eq(1) show ?case
    by (simp add: ys)
qed

lemma findIndex_update:
  assumes "findIndex P xs = Some i" and "P y"
  shows "findIndex P (xs[i := y]) = Some i"
proof -
  from assms(1) have i: "i < length xs" "P (xs ! i)"
    by (auto dest: findIndex_Some)
  have "map P (xs[i := y]) = (map P xs)[i := P y]"
    by (simp add: map_update)
  also have "\<dots> = map P xs"
    using i assms(2) by (simp add: list_update_same_conv)
  finally have "findIndex P (xs[i := y]) = findIndex P xs"
    by (rule findIndex_map_cong)
  with assms(1) show ?thesis
    by simp
qed

lemma splice1_length: "i < length xs \<Longrightarrow> length (splice1 i xs) = length xs - 1"
  by (simp add: splice1_def)

lemma splice1_ordered:
  "sorted_wrt P xs \<Longrightarrow> sorted_wrt P (splice1 i xs)"
proof -
  assume s: "sorted_wrt P xs"
  have a: "sorted_wrt P (take i xs)" and b: "sorted_wrt P (drop i xs)"
    and c: "\<forall>x\<in>set (take i xs). \<forall>y\<in>set (drop i xs). P x y"
    using s sorted_wrt_append [of P "take i xs" "drop i xs"] by simp_all
  have d: "drop (Suc i) xs = drop 1 (drop i xs)" by simp
  have b': "sorted_wrt P (drop (Suc i) xs)"
    unfolding d using b by (rule sorted_wrt_drop)
  have "set (drop (Suc i) xs) \<subseteq> set (drop i xs)"
    unfolding d by (rule set_drop_subset)
  with c have c': "\<forall>x\<in>set (take i xs). \<forall>y\<in>set (drop (Suc i) xs). P x y"
    by blast
  show ?thesis
    unfolding splice1_def using a b' c' by (simp add: sorted_wrt_append)
qed

lemma Array_sort_ordered:
  "sorted_wrt (\<lambda>a b. \<not> gt0 (cmp a b)) xs \<Longrightarrow> Array_sort cmp xs = xs"
proof (induction xs)
  case Nil
  then show ?case by (simp add: Array_sort_def)
next
  case (Cons x xs)
  then have ih: "Array_sort cmp xs = xs" by simp
  have "Array_sort cmp (x # xs) = insort_cmp cmp x (Array_sort cmp xs)"
    by (simp add: Array_sort_def)
  also have "\<dots> = insort_cmp cmp x xs"
    by (simp only: ih)
  also have "\<dots> = x # xs"
    using Cons.prems by (cases xs) auto
  finally show ?case .
qed

subsection \<open>Persistence\<close>

lemma saveTodos_result:
  "saveTodos m s =
     (if rejects s (calls s) then Inl (StorageError ''Failed to save todos to storage'') else Inr (),
      if rejects s (calls s) then s\<lparr> calls := Suc (calls s) \<rparr>
      else s\<lparr> items := (items s)(STORAGE_KEY := JArr (map TodoItem_toJSON (todos m))),
              calls := Suc (calls s) \<rparr>)"
  by (simp add: saveTodos_def sync_set_def)

lemma saveGroups_result:
  "saveGroups m s =
     (if rejects s (calls s) then Inl (StorageError ''Failed to save groups to storage'') else Inr (),
      if rejects s (calls s) then s\<lparr> calls := Suc (calls s) \<rparr>
      else s\<lparr> items := (items s)(GROUPS_STORAGE_KEY := JArr (map TodoGroup_toJSON (groups m))),
              calls := Suc (calls s) \<rparr>)"
  by (simp add: saveGroups_def sync_set_def)

lemma parse_groups_Nil: "parse_groups host rs [] = []"
  by (simp add: parse_groups_def enumerate_simps map_filter_simps)

lemma parse_todos_Nil: "parse_todos rs [] = []"
  by (simp add: parse_todos_def enumerate_simps map_filter_simps)

lemma loadGroups_empty:
  assumes "\<not> ToBoolean (items s GROUPS_STORAGE_KEY) \<or> items s GROUPS_STORAGE_KEY = JArr []"
    and "\<not> rejects s (calls s)"
  shows "loadGroups host rs m s = (Inr (), m\<lparr> groups := [] \<rparr>, s\<lparr> calls := Suc (calls s) \<rparr>)"
  using assms by (auto simp: loadGroups_def sync_get_def parse_groups_Nil)

lemma loadTodos_empty:
  assumes "\<not> ToBoolean (items s STORAGE_KEY) \<or> items s STORAGE_KEY = JArr []"
    and "\<not> rejects s (calls s)"
  shows "loadTodos rs m s = (Inr (), m\<lparr> todos := [] \<rparr>, s\<lparr> calls := Suc (calls s) \<rparr>)"
  using assms by (auto simp: loadTodos_def sync_get_def parse_todos_Nil)

subsection \<open>The example data\<close>

lemma toString36_ex: "toString36 1700000000000 = js ''loyw3v28''"
  by (simp add: toString36_def digit36_def js_def)

lemma toString36_ex2: "toString36 1700000000123 = js ''loyw3v5n''"
  by (simp add: toString36_def digit36_def js_def)

lemma ex_reads_stamps:
  "createdAt_now (ex_reads ms rnd stamp) = js stamp"
  "updatedAt_now (ex_reads ms rnd stamp) = js stamp"
  by (simp_all add: ex_reads_def)

lemma ex_group_id:
  "generateId_group (ex_reads 1700000000000 ''k3j9x2'' stamp) = js ''group_loyw3v28k3j9x2''"
  by (simp add: generateId_group_def ex_reads_def toString36_ex js_append)

lemma ex_todo_id:
  "generateId_item (ex_reads 1700000000123 ''q8w2'' stamp) = js ''loyw3v5nq8w2''"
  by (simp add: generateId_item_def ex_reads_def toString36_ex2 js_append)

lemma Work_valid: "validateName (JStr (js ''Work'')) = Inr ()"
  by (simp add: validateName_def trim_def js_def is_ws_def MAX_GROUP_NAME_LENGTH_def)

lemma Work_trim: "trim (js ''Work'') = js ''Work''"
  by (simp add: trim_def js_def is_ws_def)

lemma To_Do_valid: "validateName (JStr (js ''To Do'')) = Inr ()"
  by (simp add: validateName_def trim_def js_def is_ws_def MAX_GROUP_NAME_LENGTH_def)

lemma To_Do_trim: "trim (js ''To Do'') = js ''To Do''"
  by (simp add: trim_def js_def is_ws_def)

lemma Buy_milk_valid:
  "validateText (JStr (js ''Buy milk'')) = Inr ()" "trim (js ''Buy milk'') = js ''Buy milk''"
  by (simp_all add: validateText_def trim_def js_def is_ws_def MAX_TODO_LENGTH_def)

lemma ex_names_valid:
  "validateName (JStr (js ''Today'')) = Inr ()" "trim (js ''Today'') = js ''Today''"
  "validateName (JStr (js ''Backlog'')) = Inr ()" "trim (js ''Backlog'') = js ''Backlog''"
  "validateName (JStr (js ''Done'')) = Inr ()" "trim (js ''Done'') = js ''Done''"
  by (simp_all add: validateName_def trim_def js_def is_ws_def MAX_GROUP_NAME_LENGTH_def)

lemma ex_group_new:
  "TodoGroup_new ex_host (ex_reads 1700000000000 ''k3j9x2'' ''2023-11-14T22:13:20.000Z'')
     (JStr (js ''Work'')) JUndefined JUndefined = Inr ex_group"
  by (simp add: TodoGroup_new_def validateName_def trim_def is_ws_def MAX_GROUP_NAME_LENGTH_def
        generateId_group_def toString36_ex ex_reads_def ex_group_def Number_or_0_def js_def)

lemma ex_addTodo:
  "addTodo (ex_reads 1700000000123 ''q8w2'' ''2023-11-14T22:13:20.123Z'')
     (ex_manager\<lparr> todos := [] \<rparr>) ex_store (JStr (js ''Buy milk'')) (g_id ex_group) =
     (Inr ex_todo, ex_manager, snd (saveTodos ex_manager ex_store))"
  by (simp add: addTodo_def TodoItem_new_def validateText_def validateGroupId_def trim_def
        is_ws_def MAX_TODO_LENGTH_def generateId_item_def toString36_ex2 ex_reads_def
        ex_manager_def ex_group_def ex_todo_def ex_store_def saveTodos_result js_def)

section \<open>Serialization round trip\<close>

text \<open>
  What the round trip keeps: deserializing the serialized form of a constructed group
  (or todo) gives back every field but the two timestamps, which \<open>fromJSON\<close> does not
  read from the record: the constructor sets them to the clock readings of the
  deserialization.
\<close>

lemma TodoGroup_roundtrip:
  assumes "TodoGroup_new host r name position ident = Inr g"
  shows "TodoGroup_fromJSON host' r' (TodoGroup_toJSON g) =
           Inr (g\<lparr> g_createdAt := createdAt_now r', g_updatedAt := updatedAt_now r' \<rparr>)"
proof -
  note g = TodoGroup_new_Inr [OF assms]
  have v: "validateName (JStr (g_name g)) = Inr ()"
    using g by (simp add: validateName_Inr)
  have p: "Number_or_0 host' (JNum (g_position g)) = Inr (g_position g)"
    using g(5) by (auto simp: Number_or_0_JNum)
  have i: "g_id g \<noteq> JUndefined"
    using g(1) by auto
  have o: "ToBoolean (TodoGroup_toJSON g)" "typeof_object (TodoGroup_toJSON g)"
    by (simp_all add: TodoGroup_toJSON_def)
  show ?thesis
    using g(1,2) i
    by (simp add: TodoGroup_fromJSON_def o TodoGroup_new_def v p)
qed

lemma TodoItem_roundtrip:
  assumes "TodoItem_new r text groupId completed description ident = Inr t"
  shows "TodoItem_fromJSON r' (TodoItem_toJSON t) =
           Inr (t\<lparr> t_createdAt := createdAt_now r', t_updatedAt := updatedAt_now r' \<rparr>)"
proof -
  note t = TodoItem_new_Inr [OF assms]
  have v: "validateText (JStr (t_text t)) = Inr ()"
    using t by (simp add: validateText_Inr)
  obtain gid where gid: "t_groupId t = JStr gid" "gid \<noteq> []"
    using t(5) by (auto simp: validateGroupId_Inr)
  have i: "t_id t \<noteq> JUndefined"
    using t(1) by auto
  have d: "(if ToBoolean (t_description t) then t_description t else JStr []) = t_description t"
    using t(6) by auto
  have d': "t_description t \<noteq> JUndefined"
    using t(6) by auto
  have o: "ToBoolean (TodoItem_toJSON t)" "typeof_object (TodoItem_toJSON t)"
    by (simp_all add: TodoItem_toJSON_def)
  have vg: "validateGroupId (JStr gid) = Inr ()"
    using gid by (simp add: validateGroupId_Inr)
  show ?thesis
    using t(1,2,6) i d' gid
    by (auto simp: TodoItem_fromJSON_def o TodoItem_new_def v vg Let_def)
qed

text \<open>
  C1. The round trip does not reproduce \<open>createdAt\<close> and \<open>updatedAt\<close>. A group "Work" and
  a todo "Buy milk" are constructed on 14 November and serialized; \<open>fromJSON\<close> on the
  next morning returns them with both timestamps set to that morning's reading, while
  \<open>id\<close>, \<open>name\<close>, \<open>text\<close>, \<open>position\<close>, \<open>groupId\<close>, \<open>completed\<close> and \<open>description\<close> are
  as they were.
\<close>

theorem roundtrip_resets_timestamps:
  "TodoGroup_new ex_host (ex_reads 1700000000000 ''k3j9x2'' ''2023-11-14T22:13:20.000Z'')
     (JStr (js ''Work'')) JUndefined JUndefined = Inr ex_group
   \<and> TodoGroup_fromJSON ex_host (ex_load_reads 0) (TodoGroup_toJSON ex_group) =
       Inr (ex_group\<lparr> g_createdAt := js ''2023-11-15T09:00:00.000Z'',
                       g_updatedAt := js ''2023-11-15T09:00:00.000Z'' \<rparr>)
   \<and> g_createdAt ex_group \<noteq> js ''2023-11-15T09:00:00.000Z''
   \<and> TodoItem_new (ex_reads 1700000000123 ''q8w2'' ''2023-11-14T22:13:20.123Z'')
       (JStr (js ''Buy milk'')) (g_id ex_group) JUndefined JUndefined JUndefined = Inr ex_todo
   \<and> TodoItem_fromJSON (ex_load_reads 0) (TodoItem_toJSON ex_todo) =
       Inr (ex_todo\<lparr> t_createdAt := js ''2023-11-15T09:00:00.000Z'',
                      t_updatedAt := js ''2023-11-15T09:00:00.000Z'' \<rparr>)
   \<and> t_createdAt ex_todo \<noteq> js ''2023-11-15T09:00:00.000Z''"
proof -
  have g: "TodoGroup_new ex_host (ex_reads 1700000000000 ''k3j9x2'' ''2023-11-14T22:13:20.000Z'')
     (JStr (js ''Work'')) JUndefined JUndefined = Inr ex_group"
    by (rule ex_group_new)
  have t: "TodoItem_new (ex_reads 1700000000123 ''q8w2'' ''2023-11-14T22:13:20.123Z'')
       (JStr (js ''Buy milk'')) (g_id ex_group) JUndefined JUndefined JUndefined = Inr ex_todo"
    by (simp add: TodoItem_new_def validateText_def validateGroupId_def trim_def
        is_ws_def MAX_TODO_LENGTH_def generateId_item_def toString36_ex2 ex_reads_def
        ex_group_def ex_todo_def js_def)
  have r: "createdAt_now (ex_load_reads 0) = js ''2023-11-15T09:00:00.000Z''"
    "updatedAt_now (ex_load_reads 0) = js ''2023-11-15T09:00:00.000Z''"
    by (simp_all add: ex_load_reads_def ex_reads_def)
  have g': "TodoGroup_fromJSON ex_host (ex_load_reads 0) (TodoGroup_toJSON ex_group) =
       Inr (ex_group\<lparr> g_createdAt := js ''2023-11-15T09:00:00.000Z'',
                       g_updatedAt := js ''2023-11-15T09:00:00.000Z'' \<rparr>)"
    using TodoGroup_roundtrip [OF g, of ex_host "ex_load_reads 0"] by (simp only: r)
  have t': "TodoItem_fromJSON (ex_load_reads 0) (TodoItem_toJSON ex_todo) =
       Inr (ex_todo\<lparr> t_createdAt := js ''2023-11-15T09:00:00.000Z'',
                      t_updatedAt := js ''2023-11-15T09:00:00.000Z'' \<rparr>)"
    using TodoItem_roundtrip [OF t, of "ex_load_reads 0"] by (simp only: r)
  have n: "g_createdAt ex_group \<noteq> js ''2023-11-15T09:00:00.000Z''"
    "t_createdAt ex_todo \<noteq> js ''2023-11-15T09:00:00.000Z''"
    by (simp_all add: ex_group_def ex_todo_def js_inject)
  show ?thesis
    by (intro conjI g g' n t t')
qed

theorem roundtrip_resets_timestamps_witness:
  "(\<exists>g. TodoGroup_fromJSON ex_host (ex_load_reads 0) (TodoGroup_toJSON ex_group) = Inr g
         \<and> g_createdAt g \<noteq> g_createdAt ex_group)
   \<and> (\<exists>t. TodoItem_fromJSON (ex_load_reads 0) (TodoItem_toJSON ex_todo) = Inr t
         \<and> t_createdAt t \<noteq> t_createdAt ex_todo)"
proof -
  from roundtrip_resets_timestamps
  have g: "TodoGroup_fromJSON ex_host (ex_load_reads 0) (TodoGroup_toJSON ex_group) =
             Inr (ex_group\<lparr> g_createdAt := js ''2023-11-15T09:00:00.000Z'',
                             g_updatedAt := js ''2023-11-15T09:00:00.000Z'' \<rparr>)"
    and gn: "g_createdAt ex_group \<noteq> js ''2023-11-15T09:00:00.000Z''"
    and t: "TodoItem_fromJSON (ex_load_reads 0) (TodoItem_toJSON ex_todo) =
             Inr (ex_todo\<lparr> t_createdAt := js ''2023-11-15T09:00:00.000Z'',
                            t_updatedAt := js ''2023-11-15T09:00:00.000Z'' \<rparr>)"
    and tn: "t_createdAt ex_todo \<noteq> js ''2023-11-15T09:00:00.000Z''"
    by blast+
  have a: "\<exists>g. TodoGroup_fromJSON ex_host (ex_load_reads 0) (TodoGroup_toJSON ex_group) = Inr g
         \<and> g_createdAt g \<noteq> g_createdAt ex_group"
  proof (intro exI conjI)
    show "TodoGroup_fromJSON ex_host (ex_load_reads 0) (TodoGroup_toJSON ex_group) =
             Inr (ex_group\<lparr> g_createdAt := js ''2023-11-15T09:00:00.000Z'',
                             g_updatedAt := js ''2023-11-15T09:00:00.000Z'' \<rparr>)"
      by (rule g)
    show "g_createdAt (ex_group\<lparr> g_createdAt := js ''2023-11-15T09:00:00.000Z'',
                             g_updatedAt := js ''2023-11-15T09:00:00.000Z'' \<rparr>)
          \<noteq> g_createdAt ex_group"
      using gn by auto
  qed
  have b: "\<exists>t. TodoItem_fromJSON (ex_load_reads 0) (TodoItem_toJSON ex_todo) = Inr t
         \<and> t_createdAt t \<noteq> t_createdAt ex_todo"
  proof (intro exI conjI)
    show "TodoItem_fromJSON (ex_load_reads 0) (TodoItem_toJSON ex_todo) =
             Inr (ex_todo\<lparr> t_createdAt := js ''2023-11-15T09:00:00.000Z'',
                            t_updatedAt := js ''2023-11-15T09:00:00.000Z'' \<rparr>)"
      by (rule t)
    show "t_createdAt (ex_todo\<lparr> t_createdAt := js ''2023-11-15T09:00:00.000Z'',
                            t_updatedAt := js ''2023-11-15T09:00:00.000Z'' \<rparr>)
          \<noteq> t_createdAt ex_todo"
      using tn by auto
  qed
  show ?thesis
    by (intro conjI a b)
qed

section \<open>Removing a group\<close>

lemma updatePosition_index:
  "updatePosition host now g (JNum (Fin (real k))) =
     Inr (g\<lparr> g_position := Fin (real k), g_updatedAt := now \<rparr>)"
  by (simp add: updatePosition_def Number_or_0_JNum)

lemma forEach_updatePosition_eq:
  "forEach_updatePosition host nows k gs =
     (None, map (\<lambda>(k, g). g\<lparr> g_position := Fin (real k), g_updatedAt := nows k \<rparr>)
              (enumerate k gs))"
  by (induction gs arbitrary: k) (simp_all add: updatePosition_index)

lemma renumber_eq:
  "renumber host nows gs =
     map (\<lambda>(k, g). g\<lparr> g_position := Fin (real k), g_updatedAt := nows k \<rparr>) (enumerate 0 gs)"
  by (simp add: renumber_def forEach_updatePosition_eq)

lemma renumber_positions:
  "map g_position (renumber host nows gs) = map (\<lambda>k. Fin (real k)) [0..<length gs]"
proof -
  have e: "map fst (enumerate 0 gs) = [0..<length gs]"
    by (simp add: map_fst_enumerate)
  have "map g_position (renumber host nows gs) =
          map ((\<lambda>k. Fin (real k)) \<circ> fst) (enumerate 0 gs)"
    by (simp add: renumber_eq split_def comp_def)
  also have "\<dots> = map (\<lambda>k. Fin (real k)) (map fst (enumerate 0 gs))"
    by (simp only: map_map)
  finally show ?thesis
    by (simp only: e)
qed

lemma renumber_field:
  assumes "\<And>g p u. f (g\<lparr> g_position := p, g_updatedAt := u \<rparr>) = f g"
  shows "map f (renumber host nows gs) = map f gs"
proof -
  have "map f (renumber host nows gs) = map (f \<circ> snd) (enumerate 0 gs)"
    by (simp add: renumber_eq split_def comp_def assms)
  also have "\<dots> = map f (map snd (enumerate 0 gs))"
    by (simp only: map_map)
  finally show ?thesis
    by (simp only: map_snd_enumerate)
qed

lemma renumber_keeps:
  "map g_id (renumber host nows gs) = map g_id gs"
  "map g_name (renumber host nows gs) = map g_name gs"
  "map g_createdAt (renumber host nows gs) = map g_createdAt gs"
  by (simp_all add: renumber_field)

lemma removeGroup_unknown:
  "findIndex (\<lambda>grp. strict_eq (g_id grp) groupId) (groups m) = None \<Longrightarrow>
     removeGroup host nows m s groupId = (Inr False, m, s)"
  by (simp add: removeGroup_def)

lemma removeGroup_found:
  assumes "findIndex (\<lambda>grp. strict_eq (g_id grp) groupId) (groups m) = Some i"
  shows "fst (removeGroup host nows m s groupId) =
           (if rejects s (calls s) \<or> rejects s (Suc (calls s))
            then Inl (StorageError ''Failed to remove group'') else Inr True)"
    and "fst (snd (removeGroup host nows m s groupId)) =
           m\<lparr> todos := filter (\<lambda>todo. \<not> strict_eq (t_groupId todo) groupId) (todos m),
              groups := renumber host nows (splice1 i (groups m)) \<rparr>"
    and "calls (snd (snd (removeGroup host nows m s groupId))) = Suc (Suc (calls s))"
  using assms
  by (simp_all add: removeGroup_def Let_def saveGroups_result saveTodos_result split_def
        forEach_updatePosition_eq)

text \<open>
  The manager's own operations keep the array in position order: \<open>addGroup\<close> sorts it,
  and \<open>removeGroup\<close> leaves the positions \<open>0..n-1\<close> in array order. \<open>loadGroups\<close> takes
  the records in the order the store has them.
\<close>

lemma by_position_total:
  "g_position a \<noteq> NaN \<Longrightarrow> g_position b \<noteq> NaN \<Longrightarrow>
     gt0 (by_position a b) \<Longrightarrow> \<not> gt0 (by_position b a)"
  by (cases "g_position a"; cases "g_position b") (auto simp: by_position_def)

lemma by_position_trans:
  "g_position a \<noteq> NaN \<Longrightarrow> g_position b \<noteq> NaN \<Longrightarrow> g_position c \<noteq> NaN \<Longrightarrow>
     \<not> gt0 (by_position a b) \<Longrightarrow> \<not> gt0 (by_position b c) \<Longrightarrow> \<not> gt0 (by_position a c)"
  by (cases "g_position a"; cases "g_position b"; cases "g_position c")
     (auto simp: by_position_def)

lemma set_insort_cmp: "set (insort_cmp cmp x ys) = insert x (set ys)"
  by (induction ys) auto

lemma insort_ordered:
  assumes "g_position x \<noteq> NaN" and "\<forall>y\<in>set ys. g_position y \<noteq> NaN"
    and "sorted_wrt (\<lambda>a b. \<not> gt0 (by_position a b)) ys"
  shows "sorted_wrt (\<lambda>a b. \<not> gt0 (by_position a b)) (insort_cmp by_position x ys)"
  using assms(2,3)
proof (induction ys)
  case Nil
  then show ?case by simp
next
  case (Cons y ys)
  show ?case
  proof (cases "gt0 (by_position x y)")
    case True
    have yx: "\<not> gt0 (by_position y x)"
      using by_position_total [OF assms(1) _ True] Cons.prems(1) by simp
    have "sorted_wrt (\<lambda>a b. \<not> gt0 (by_position a b)) (insort_cmp by_position x ys)"
      using Cons by simp
    moreover have "\<forall>z\<in>set (insort_cmp by_position x ys). \<not> gt0 (by_position y z)"
      using Cons.prems(2) yx by (simp add: set_insort_cmp)
    ultimately show ?thesis
      using True by simp
  next
    case False
    have "\<forall>z\<in>set ys. \<not> gt0 (by_position x z)"
    proof
      fix z assume z: "z \<in> set ys"
      with Cons.prems have "\<not> gt0 (by_position y z)" "g_position z \<noteq> NaN" "g_position y \<noteq> NaN"
        by auto
      with False assms(1) show "\<not> gt0 (by_position x z)"
        using by_position_trans [of x y z] by blast
    qed
    with False Cons.prems(2) show ?thesis
      by simp
  qed
qed

lemma Array_sort_set: "set (Array_sort cmp xs) = set xs"
  by (induction xs) (simp_all add: Array_sort_def set_insort_cmp)

lemma Array_sort_position_ordered:
  "positions_defined gs \<Longrightarrow> position_ordered (Array_sort by_position gs)"
proof (induction gs)
  case Nil
  then show ?case by (simp add: Array_sort_def position_ordered_def)
next
  case (Cons g gs)
  then have ih: "sorted_wrt (\<lambda>a b. \<not> gt0 (by_position a b)) (Array_sort by_position gs)"
    and g: "g_position g \<noteq> NaN" and gs: "\<forall>y\<in>set gs. g_position y \<noteq> NaN"
    by (simp_all add: positions_defined_def position_ordered_def list_all_iff)
  from gs have "\<forall>y\<in>set (Array_sort by_position gs). g_position y \<noteq> NaN"
    by (simp add: Array_sort_set)
  from insort_ordered [OF g this ih] show ?case
    by (simp add: Array_sort_def position_ordered_def)
qed

lemma addGroup_position_ordered:
  assumes "positions_defined (groups m)"
  shows "position_ordered (groups (fst (snd (addGroup host r m s name position))))
       \<or> groups (fst (snd (addGroup host r m s name position))) = groups m"
    and "positions_defined (groups (fst (snd (addGroup host r m s name position))))"
proof -
  show "position_ordered (groups (fst (snd (addGroup host r m s name position))))
       \<or> groups (fst (snd (addGroup host r m s name position))) = groups m"
  proof (cases "TodoGroup_new host r name
                  (if (if position = JUndefined then JNull else position) \<noteq> JNull
                   then (if position = JUndefined then JNull else position)
                   else JNum (Fin (real (length (groups m))))) JUndefined")
    case (Inl e)
    then show ?thesis by (simp add: addGroup_def Let_def)
  next
    case (Inr g)
    then have "g_position g \<noteq> NaN" by (rule TodoGroup_new_Inr(5))
    with assms have "positions_defined (groups m @ [g])"
      by (simp add: positions_defined_def)
    then have "position_ordered (Array_sort by_position (groups m @ [g]))"
      by (rule Array_sort_position_ordered)
    with Inr show ?thesis
      by (simp add: addGroup_def Let_def saveGroups_result)
  qed
  show "positions_defined (groups (fst (snd (addGroup host r m s name position))))"
  proof (cases "TodoGroup_new host r name
                  (if (if position = JUndefined then JNull else position) \<noteq> JNull
                   then (if position = JUndefined then JNull else position)
                   else JNum (Fin (real (length (groups m))))) JUndefined")
    case (Inl e)
    with assms show ?thesis by (simp add: addGroup_def Let_def)
  next
    case (Inr g)
    then have "g_position g \<noteq> NaN" by (rule TodoGroup_new_Inr(5))
    with assms have "\<forall>y\<in>set (Array_sort by_position (groups m @ [g])). g_position y \<noteq> NaN"
      by (simp add: Array_sort_set positions_defined_def list_all_iff)
    with Inr show ?thesis
      by (simp add: addGroup_def Let_def saveGroups_result positions_defined_def list_all_iff)
  qed
qed

lemma addGroup_keeps_position_order:
  assumes "positions_defined (groups m)" and "position_ordered (groups m)"
  shows "position_ordered (groups (fst (snd (addGroup host r m s name position))))"
  using addGroup_position_ordered(1) [OF assms(1), of host r s name position] assms(2)
  by auto

lemma renumber_position_ordered: "position_ordered (renumber host nows gs)"
proof -
  have "sorted_wrt (\<lambda>a b. \<not> gt0 (js_minus a b)) (map (\<lambda>k. Fin (real k)) [0..<length gs])"
    by (simp add: sorted_wrt_map sorted_wrt_iff_nth_less)
  then have "sorted_wrt (\<lambda>a b. \<not> gt0 (js_minus a b)) (map g_position (renumber host nows gs))"
    by (simp only: renumber_positions)
  then show ?thesis
    by (simp add: position_ordered_def by_position_def sorted_wrt_map)
qed

lemma renumber_positions_defined: "positions_defined (renumber host nows gs)"
  by (simp add: positions_defined_def renumber_eq list_all_iff split_def)

lemma removeGroup_keeps_position_order:
  assumes "position_ordered (groups m)"
  shows "position_ordered (groups (fst (snd (removeGroup host nows m s groupId))))"
proof (cases "findIndex (\<lambda>grp. strict_eq (g_id grp) groupId) (groups m)")
  case None
  with assms show ?thesis
    by (simp add: removeGroup_unknown)
next
  case (Some i)
  then show ?thesis
    by (simp add: removeGroup_found(2) renumber_position_ordered)
qed

lemma removeGroup_keeps_positions_defined:
  assumes "positions_defined (groups m)"
  shows "positions_defined (groups (fst (snd (removeGroup host nows m s groupId))))"
proof (cases "findIndex (\<lambda>grp. strict_eq (g_id grp) groupId) (groups m)")
  case None
  with assms show ?thesis
    by (simp add: removeGroup_unknown)
next
  case (Some i)
  then show ?thesis
    by (simp add: removeGroup_found(2) renumber_positions_defined)
qed

lemma in_set_map_filter:
  "y \<in> set (List.map_filter f xs) \<Longrightarrow> \<exists>x\<in>set xs. f x = Some y"
  by (auto simp: map_filter_def)

lemma parse_groups_positions_defined: "positions_defined (parse_groups host rs xs)"
proof -
  have ok: "g_position g \<noteq> NaN" if "TodoGroup_fromJSON host r data = Inr g" for r data g
    using that by (auto simp: TodoGroup_fromJSON_def dest: TodoGroup_new_Inr(5) split: if_splits)
  have "g_position g \<noteq> NaN" if "g \<in> set (parse_groups host rs xs)" for g
  proof -
    from that obtain i data
      where "(case TodoGroup_fromJSON host (rs i) data of Inl e \<Rightarrow> None | Inr g \<Rightarrow> Some g) = Some g"
      unfolding parse_groups_def by (auto dest!: in_set_map_filter)
    then have "TodoGroup_fromJSON host (rs i) data = Inr g"
      by (auto split: sum.splits)
    then show ?thesis
      by (rule ok)
  qed
  then show ?thesis
    by (simp add: positions_defined_def list_all_iff)
qed

text \<open>
  C2, as the code has it. For a \<open>groupId\<close> that no group has, \<open>removeGroup\<close> returns
  \<^verbatim>\<open>false\<close> and changes neither the manager nor the store. For the id of a group, found
  at index \<open>i\<close>, it removes every todo whose \<open>groupId\<close> is that id, removes the group at
  \<open>i\<close>, and gives the remaining groups the positions \<open>0..n-1\<close> in their order in the
  array (each with a new \<open>updatedAt\<close>, nothing else changed). When the array was in
  position order before the call, that order is the one \<open>getGroups\<close> sorts the remaining
  groups into, so each group's new position is its rank by position. The result is
  \<^verbatim>\<open>true\<close> when the store accepts both writes, and the \<open>StorageError\<close> otherwise, the
  manager being updated in both cases.
\<close>

theorem removeGroup_renumbers:
  "(findIndex (\<lambda>grp. strict_eq (g_id grp) groupId) (groups m) = None \<longrightarrow>
      removeGroup host nows m s groupId = (Inr False, m, s))
   \<and> (findIndex (\<lambda>grp. strict_eq (g_id grp) groupId) (groups m) = Some i \<longrightarrow>
        fst (snd (removeGroup host nows m s groupId)) =
          m\<lparr> todos := filter (\<lambda>todo. \<not> strict_eq (t_groupId todo) groupId) (todos m),
             groups := renumber host nows (splice1 i (groups m)) \<rparr>
      \<and> renumber host nows (splice1 i (groups m)) =
          map (\<lambda>(k, g). g\<lparr> g_position := Fin (real k), g_updatedAt := nows k \<rparr>)
            (enumerate 0 (splice1 i (groups m)))
      \<and> map g_position (renumber host nows (splice1 i (groups m))) =
          map (\<lambda>k. Fin (real k)) [0..<length (groups m) - 1]
      \<and> (position_ordered (groups m) \<longrightarrow>
            renumber host nows (splice1 i (groups m)) =
            renumber host nows (getGroups (m\<lparr> groups := splice1 i (groups m) \<rparr>)))
      \<and> fst (removeGroup host nows m s groupId) =
          (if rejects s (calls s) \<or> rejects s (Suc (calls s))
           then Inl (StorageError ''Failed to remove group'') else Inr True))"
proof (intro conjI impI)
  assume "findIndex (\<lambda>grp. strict_eq (g_id grp) groupId) (groups m) = None"
  then show "removeGroup host nows m s groupId = (Inr False, m, s)"
    by (rule removeGroup_unknown)
next
  assume i: "findIndex (\<lambda>grp. strict_eq (g_id grp) groupId) (groups m) = Some i"
  show "fst (snd (removeGroup host nows m s groupId)) =
          m\<lparr> todos := filter (\<lambda>todo. \<not> strict_eq (t_groupId todo) groupId) (todos m),
             groups := renumber host nows (splice1 i (groups m)) \<rparr>"
    by (rule removeGroup_found(2) [OF i])
  show "renumber host nows (splice1 i (groups m)) =
          map (\<lambda>(k, g). g\<lparr> g_position := Fin (real k), g_updatedAt := nows k \<rparr>)
            (enumerate 0 (splice1 i (groups m)))"
    by (rule renumber_eq)
  from i have "i < length (groups m)"
    by (auto dest: findIndex_Some)
  then show "map g_position (renumber host nows (splice1 i (groups m))) =
          map (\<lambda>k. Fin (real k)) [0..<length (groups m) - 1]"
    by (simp add: renumber_positions splice1_length)
  show "fst (removeGroup host nows m s groupId) =
          (if rejects s (calls s) \<or> rejects s (Suc (calls s))
           then Inl (StorageError ''Failed to remove group'') else Inr True)"
    by (rule removeGroup_found(1) [OF i])
next
  assume "position_ordered (groups m)"
  then have "sorted_wrt (\<lambda>a b. \<not> gt0 (by_position a b)) (splice1 i (groups m))"
    unfolding position_ordered_def by (rule splice1_ordered)
  then have "Array_sort by_position (splice1 i (groups m)) = splice1 i (groups m)"
    by (rule Array_sort_ordered)
  then show "renumber host nows (splice1 i (groups m)) =
            renumber host nows (getGroups (m\<lparr> groups := splice1 i (groups m) \<rparr>))"
    by (simp add: getGroups_def)
qed

theorem removeGroup_renumbers_witness:
  "findIndex (\<lambda>grp. strict_eq (g_id grp) (g_id ex_group)) (groups ex_board) = Some 0
   \<and> position_ordered (groups ex_board)
   \<and> removeGroup ex_host (\<lambda>k. js ''2023-11-15T09:05:00.000Z'') ex_board ex_store
       (JStr (js ''group_none'')) = (Inr False, ex_board, ex_store)
   \<and> fst (removeGroup ex_host (\<lambda>k. js ''2023-11-15T09:05:00.000Z'') ex_board ex_store
            (g_id ex_group)) = Inr True
   \<and> fst (snd (removeGroup ex_host (\<lambda>k. js ''2023-11-15T09:05:00.000Z'') ex_board ex_store
            (g_id ex_group))) =
       ex_board\<lparr> todos := [ex_errand],
                 groups := [ex_home\<lparr> g_position := Fin 0,
                                     g_updatedAt := js ''2023-11-15T09:05:00.000Z'' \<rparr>] \<rparr>
   \<and> renumber ex_host (\<lambda>k. js ''2023-11-15T09:05:00.000Z'') [ex_home] =
       renumber ex_host (\<lambda>k. js ''2023-11-15T09:05:00.000Z'')
         (getGroups (ex_board\<lparr> groups := [ex_home] \<rparr>))"
proof -
  let ?nows = "\<lambda>k::nat. js ''2023-11-15T09:05:00.000Z''"
  have i: "findIndex (\<lambda>grp. strict_eq (g_id grp) (g_id ex_group)) (groups ex_board) = Some 0"
    by (simp add: ex_board_def ex_group_def)
  have n: "findIndex (\<lambda>grp. strict_eq (g_id grp) (JStr (js ''group_none''))) (groups ex_board)
             = None"
    by (simp add: ex_board_def ex_group_def ex_home_def js_inject)
  have o: "position_ordered (groups ex_board)"
    by (simp add: position_ordered_def ex_board_def by_position_def ex_group_def ex_home_def)
  have r: "splice1 0 (groups ex_board) = [ex_home]"
    by (simp add: splice1_def ex_board_def)
  have t: "filter (\<lambda>todo. \<not> strict_eq (t_groupId todo) (g_id ex_group)) (todos ex_board) =
             [ex_errand]"
    by (simp add: ex_board_def ex_done_def ex_errand_def ex_todo_def ex_group_def js_inject)
  have e: "enumerate 0 [ex_home] = [(0, ex_home)]"
    by (simp add: enumerate_simps)
  have a: "\<not> rejects ex_store (calls ex_store)" "\<not> rejects ex_store (Suc (calls ex_store))"
    by (simp_all add: ex_store_def)
  note w1 = removeGroup_renumbers [of "JStr (js ''group_none'')" ex_board ex_host ?nows ex_store 0]
  note w2 = removeGroup_renumbers [of "g_id ex_group" ex_board ex_host ?nows ex_store 0]
  from w1 n have c1: "removeGroup ex_host ?nows ex_board ex_store (JStr (js ''group_none'')) =
                        (Inr False, ex_board, ex_store)"
    by blast
  from w2 i have c2: "fst (removeGroup ex_host ?nows ex_board ex_store (g_id ex_group)) =
          (if rejects ex_store (calls ex_store) \<or> rejects ex_store (Suc (calls ex_store))
           then Inl (StorageError ''Failed to remove group'') else Inr True)"
    and c3: "fst (snd (removeGroup ex_host ?nows ex_board ex_store (g_id ex_group))) =
          ex_board\<lparr> todos := filter (\<lambda>todo. \<not> strict_eq (t_groupId todo) (g_id ex_group))
                                (todos ex_board),
             groups := renumber ex_host ?nows (splice1 0 (groups ex_board)) \<rparr>"
    by blast+
  from w2 i o have "renumber ex_host ?nows (splice1 0 (groups ex_board)) =
       renumber ex_host ?nows (getGroups (ex_board\<lparr> groups := splice1 0 (groups ex_board) \<rparr>))"
    by blast
  then have c5: "renumber ex_host ?nows [ex_home] =
       renumber ex_host ?nows (getGroups (ex_board\<lparr> groups := [ex_home] \<rparr>))"
    by (simp only: r)
  have c2': "fst (removeGroup ex_host ?nows ex_board ex_store (g_id ex_group)) = Inr True"
    unfolding c2 using a by simp
  have c3': "fst (snd (removeGroup ex_host ?nows ex_board ex_store (g_id ex_group))) =
       ex_board\<lparr> todos := [ex_errand],
                 groups := [ex_home\<lparr> g_position := Fin 0,
                                     g_updatedAt := js ''2023-11-15T09:05:00.000Z'' \<rparr>] \<rparr>"
    unfolding c3 t r by (simp add: renumber_eq e)
  show ?thesis
    by (intro conjI i o c1 c2' c3' c5)
qed

text \<open>
  The renumbering follows the array, not the positions. A store holds the groups
  "Today" (position 1), "Backlog" (position 0) and "Done" (position 2) in that order;
  \<open>initialize\<close> loads them as stored, and \<open>getGroups\<close> shows Backlog, Today, Done.
  Removing "Done" gives Today position 0 and Backlog position 1: the two swap places,
  where renumbering by rank would have kept Backlog first.
\<close>

lemma ex_record_loaded:
  assumes "validateName (JStr (js n)) = Inr ()" and "trim (js n) = js n" and "i \<noteq> []"
  shows "TodoGroup_fromJSON ex_host (ex_load_reads k) (ex_record i n p) = Inr (ex_loaded i n p)"
proof -
  have "TodoGroup_new ex_host (ex_load_reads k) (JStr (js n)) (JNum (Fin p)) (JStr (js i)) =
          Inr (ex_loaded i n p)"
    using assms(2,3)
    by (simp add: TodoGroup_new_valid [OF assms(1)] ex_loaded_def ex_load_reads_def ex_reads_def
          Number_or_0_JNum js_Nil)
  then show ?thesis
    by (simp add: TodoGroup_fromJSON_def ex_record_def js_inject)
qed

lemma ex_parse_groups:
  "parse_groups ex_host ex_load_reads
     [ex_record ''group_a'' ''Today'' 1, ex_record ''group_b'' ''Backlog'' 0,
      ex_record ''group_c'' ''Done'' 2] =
   [ex_loaded ''group_a'' ''Today'' 1, ex_loaded ''group_b'' ''Backlog'' 0,
    ex_loaded ''group_c'' ''Done'' 2]"
  by (simp add: parse_groups_def enumerate_simps map_filter_simps ex_record_loaded ex_names_valid)

lemma ex_initialize_unordered:
  "initialize ex_host ex_load_reads ex_load_reads (ex_load_reads 0) TodoManager_new
     ex_unordered_store = (Inr (), ex_unordered, ex_unordered_store\<lparr> calls := 2 \<rparr>)"
proof -
  have lg: "loadGroups ex_host ex_load_reads TodoManager_new ex_unordered_store =
              (Inr (), TodoManager_new\<lparr> groups := groups ex_unordered \<rparr>,
               ex_unordered_store\<lparr> calls := 1 \<rparr>)"
    by (simp add: loadGroups_def sync_get_def ex_unordered_store_def ex_store_def
          ex_parse_groups ex_unordered_def)
  have lt: "loadTodos ex_load_reads (TodoManager_new\<lparr> groups := groups ex_unordered \<rparr>)
              (ex_unordered_store\<lparr> calls := 1 \<rparr>) =
              (Inr (), TodoManager_new\<lparr> groups := groups ex_unordered, todos := [] \<rparr>,
               ex_unordered_store\<lparr> calls := 2 \<rparr>)"
    by (simp add: loadTodos_def sync_get_def ex_unordered_store_def ex_store_def parse_todos_Nil)
  have m: "TodoManager_new\<lparr> groups := groups ex_unordered, todos := [],
                           isInitialized := True \<rparr> = ex_unordered"
    by (simp add: TodoManager_new_def ex_unordered_def)
  have ne: "length (groups ex_unordered) \<noteq> 0"
    by (simp add: ex_unordered_def)
  have "initialize ex_host ex_load_reads ex_load_reads (ex_load_reads 0) TodoManager_new
          ex_unordered_store =
        (Inr (), TodoManager_new\<lparr> groups := groups ex_unordered, todos := [],
                                  isInitialized := True \<rparr>,
         ex_unordered_store\<lparr> calls := 2 \<rparr>)"
    unfolding initialize_def lg lt prod.case sum.case using ne by simp
  then show ?thesis
    by (simp only: m)
qed

lemma ex_unordered_index:
  "findIndex (\<lambda>grp. strict_eq (g_id grp) (JStr (js ''group_c''))) (groups ex_unordered) = Some 2"
  by (simp add: ex_unordered_def ex_loaded_def js_inject)

lemma ex_unordered_rest:
  "splice1 2 (groups ex_unordered) =
     [ex_loaded ''group_a'' ''Today'' 1, ex_loaded ''group_b'' ''Backlog'' 0]"
  by (simp add: splice1_def ex_unordered_def)

lemma ex_unordered_sorted:
  "Array_sort by_position [ex_loaded ''group_a'' ''Today'' 1, ex_loaded ''group_b'' ''Backlog'' 0] =
     [ex_loaded ''group_b'' ''Backlog'' 0, ex_loaded ''group_a'' ''Today'' 1]"
  by (simp add: Array_sort_def by_position_def ex_loaded_def)

lemma ex_renumber_two:
  "renumber host nows [a, b] =
     [a\<lparr> g_position := Fin 0, g_updatedAt := nows 0 \<rparr>,
      b\<lparr> g_position := Fin 1, g_updatedAt := nows 1 \<rparr>]"
  by (simp add: renumber_eq enumerate_simps)

theorem removeGroup_order_counterexample:
  "initialize ex_host ex_load_reads ex_load_reads (ex_load_reads 0) TodoManager_new
     ex_unordered_store = (Inr (), ex_unordered, ex_unordered_store\<lparr> calls := 2 \<rparr>)
   \<and> map g_name (getGroups ex_unordered) = [js ''Backlog'', js ''Today'', js ''Done'']
   \<and> fst (removeGroup ex_host (\<lambda>k. js ''2023-11-15T09:05:00.000Z'') ex_unordered
            (ex_unordered_store\<lparr> calls := 2 \<rparr>) (JStr (js ''group_c''))) = Inr True
   \<and> map (\<lambda>g. (g_name g, g_position g))
        (groups (fst (snd (removeGroup ex_host (\<lambda>k. js ''2023-11-15T09:05:00.000Z'') ex_unordered
            (ex_unordered_store\<lparr> calls := 2 \<rparr>) (JStr (js ''group_c'')))))) =
       [(js ''Today'', Fin 0), (js ''Backlog'', Fin 1)]
   \<and> groups (fst (snd (removeGroup ex_host (\<lambda>k. js ''2023-11-15T09:05:00.000Z'') ex_unordered
            (ex_unordered_store\<lparr> calls := 2 \<rparr>) (JStr (js ''group_c''))))) \<noteq>
       renumber ex_host (\<lambda>k. js ''2023-11-15T09:05:00.000Z'')
         (Array_sort by_position (splice1 2 (groups ex_unordered)))"
proof -
  note rf = removeGroup_found [OF ex_unordered_index, of ex_host
      "\<lambda>k. js ''2023-11-15T09:05:00.000Z''" "ex_unordered_store\<lparr> calls := 2 \<rparr>"]
  have a: "map g_name (getGroups ex_unordered) = [js ''Backlog'', js ''Today'', js ''Done'']"
    by (simp add: getGroups_def Array_sort_def by_position_def ex_unordered_def ex_loaded_def)
  have b: "fst (removeGroup ex_host (\<lambda>k. js ''2023-11-15T09:05:00.000Z'') ex_unordered
            (ex_unordered_store\<lparr> calls := 2 \<rparr>) (JStr (js ''group_c''))) = Inr True"
    unfolding rf(1) by (simp add: ex_unordered_store_def ex_store_def)
  have g: "groups (fst (snd (removeGroup ex_host (\<lambda>k. js ''2023-11-15T09:05:00.000Z'')
            ex_unordered (ex_unordered_store\<lparr> calls := 2 \<rparr>) (JStr (js ''group_c''))))) =
       [(ex_loaded ''group_a'' ''Today'' 1)
          \<lparr> g_position := Fin 0, g_updatedAt := js ''2023-11-15T09:05:00.000Z'' \<rparr>,
        (ex_loaded ''group_b'' ''Backlog'' 0)
          \<lparr> g_position := Fin 1, g_updatedAt := js ''2023-11-15T09:05:00.000Z'' \<rparr>]"
    unfolding rf(2) by (simp add: ex_unordered_rest ex_renumber_two)
  have c: "map (\<lambda>g. (g_name g, g_position g))
        (groups (fst (snd (removeGroup ex_host (\<lambda>k. js ''2023-11-15T09:05:00.000Z'') ex_unordered
            (ex_unordered_store\<lparr> calls := 2 \<rparr>) (JStr (js ''group_c'')))))) =
       [(js ''Today'', Fin 0), (js ''Backlog'', Fin 1)]"
    by (simp add: g ex_loaded_def)
  have d: "groups (fst (snd (removeGroup ex_host (\<lambda>k. js ''2023-11-15T09:05:00.000Z'')
            ex_unordered (ex_unordered_store\<lparr> calls := 2 \<rparr>) (JStr (js ''group_c''))))) \<noteq>
       renumber ex_host (\<lambda>k. js ''2023-11-15T09:05:00.000Z'')
         (Array_sort by_position (splice1 2 (groups ex_unordered)))"
    unfolding g ex_unordered_rest ex_unordered_sorted ex_renumber_two
    by (simp add: ex_loaded_def js_inject)
  show ?thesis
    by (intro conjI ex_initialize_unordered a b c d)
qed

section \<open>Moving a todo to the group it is in\<close>

text \<open>
  C3. In a state where \<open>newGroupId\<close> is the id of a group and the todo that \<open>todoId\<close>
  designates (the one \<^verbatim>\<open>this.todos.find\<close> returns) already has \<open>newGroupId\<close> as its
  group, \<open>moveTodo\<close> returns \<^verbatim>\<open>true\<close> and leaves both the manager and the store as they
  were: no call to the store is issued (its call counter is unchanged) and no field of
  any todo changes, \<open>updatedAt\<close> included.
\<close>

theorem moveTodo_same_group:
  assumes "find (\<lambda>g. strict_eq (g_id g) newGroupId) (groups m) = Some g"
    and "find (\<lambda>todo. strict_eq (t_id todo) todoId) (todos m) = Some t"
    and "strict_eq (t_groupId t) newGroupId"
  shows "moveTodo now m s todoId newGroupId = (Inr True, m, s)"
proof -
  from assms(2) obtain i
    where i: "findIndex (\<lambda>todo. strict_eq (t_id todo) todoId) (todos m) = Some i"
      and t: "todos m ! i = t"
    by (auto simp: find_findIndex)
  show ?thesis
    using assms(1,3) by (simp add: moveTodo_def i t)
qed

theorem moveTodo_same_group_witness:
  "find (\<lambda>g. strict_eq (g_id g) (g_id ex_group)) (groups ex_manager) = Some ex_group
   \<and> find (\<lambda>todo. strict_eq (t_id todo) (t_id ex_todo)) (todos ex_manager) = Some ex_todo
   \<and> strict_eq (t_groupId ex_todo) (g_id ex_group)
   \<and> moveTodo (js ''2023-11-15T09:00:00.000Z'') ex_manager ex_store (t_id ex_todo)
         (g_id ex_group) = (Inr True, ex_manager, ex_store)"
proof -
  have g: "find (\<lambda>g. strict_eq (g_id g) (g_id ex_group)) (groups ex_manager) = Some ex_group"
    by (simp add: ex_manager_def ex_group_def)
  have t: "find (\<lambda>todo. strict_eq (t_id todo) (t_id ex_todo)) (todos ex_manager) = Some ex_todo"
    by (simp add: ex_manager_def ex_todo_def)
  have e: "strict_eq (t_groupId ex_todo) (g_id ex_group)"
    by (simp add: ex_todo_def ex_group_def)
  show ?thesis
    using g t e moveTodo_same_group [OF g t e] by simp
qed

section \<open>Invalid names and texts\<close>

text \<open>
  A name (a text) that is not a string, is empty, trims to empty or is longer than the
  cap after trimming fails validation with a \<open>TodoValidationError\<close>; the constructors
  and \<open>addGroup\<close> pass the error on with the manager and the store untouched, and so
  does \<open>addTodo\<close> for a text that is a string. A text that is not a string never
  reaches the validation in \<open>addTodo\<close>: the \<^verbatim>\<open>text.substring\<close> of the first log line
  raises, and the handler turns that into a \<open>StorageError\<close>.
\<close>

lemma validateName_invalid:
  assumes "(\<forall>s. name \<noteq> JStr s)
         \<or> (\<exists>s. name = JStr s \<and> (s = [] \<or> trim s = [] \<or> MAX_GROUP_NAME_LENGTH < length (trim s)))"
  shows "\<exists>msg. validateName name = Inl (TodoValidationError msg)"
  using assms by (cases name) (auto simp: validateName_def)

lemma validateText_invalid:
  assumes "(\<forall>s. v \<noteq> JStr s)
         \<or> (\<exists>s. v = JStr s \<and> (s = [] \<or> trim s = [] \<or> MAX_TODO_LENGTH < length (trim s)))"
  shows "\<exists>msg. validateText v = Inl (TodoValidationError msg)"
  using assms by (cases v) (auto simp: validateText_def)

lemma addGroup_invalid:
  "validateName name = Inl (TodoValidationError msg) \<Longrightarrow>
     addGroup host r m s name position = (Inl (TodoValidationError msg), m, s)"
  by (simp add: addGroup_def Let_def TodoGroup_new_invalid)

lemma addTodo_invalid_text:
  "validateText (JStr str) = Inl (TodoValidationError msg) \<Longrightarrow>
     find (\<lambda>g. strict_eq (g_id g) groupId) (groups m) = Some g \<Longrightarrow>
     addTodo r m s (JStr str) groupId = (Inl (TodoValidationError msg), m, s)"
  by (simp add: addTodo_def TodoItem_new_invalid)

lemma addTodo_text_not_string:
  "\<forall>s. v \<noteq> JStr s \<Longrightarrow>
     addTodo r m s v groupId = (Inl (StorageError ''Failed to add todo item''), m, s)"
  by (cases v) (simp_all add: addTodo_def)

text \<open>
  C4. \<open>addTodo\<close> with the number 42 as text, for an existing group, throws
  \<open>StorageError\<close> ("Failed to add todo item"), not the \<open>TodoValidationError\<close> the
  constructor raises for the same text; the manager and the store are unchanged. A text
  that is a string of spaces fails with the \<open>TodoValidationError\<close>.
\<close>

theorem addTodo_number_text:
  "addTodo (ex_reads 1700000000123 ''q8w2'' ''2023-11-14T22:13:20.123Z'') ex_manager ex_store
     (JNum (Fin 42)) (g_id ex_group) =
     (Inl (StorageError ''Failed to add todo item''), ex_manager, ex_store)
   \<and> TodoItem_new (ex_reads 1700000000123 ''q8w2'' ''2023-11-14T22:13:20.123Z'')
       (JNum (Fin 42)) (g_id ex_group) JUndefined JUndefined JUndefined =
       Inl (TodoValidationError ''Todo text must be a non-empty string'')
   \<and> addTodo (ex_reads 1700000000123 ''q8w2'' ''2023-11-14T22:13:20.123Z'') ex_manager ex_store
       (JStr (js ''   '')) (g_id ex_group) =
       (Inl (TodoValidationError ''Todo text cannot be empty or whitespace only''),
        ex_manager, ex_store)"
proof -
  have a: "addTodo (ex_reads 1700000000123 ''q8w2'' ''2023-11-14T22:13:20.123Z'') ex_manager
       ex_store (JNum (Fin 42)) (g_id ex_group) =
     (Inl (StorageError ''Failed to add todo item''), ex_manager, ex_store)"
    by (simp add: addTodo_def)
  have b: "TodoItem_new (ex_reads 1700000000123 ''q8w2'' ''2023-11-14T22:13:20.123Z'')
       (JNum (Fin 42)) (g_id ex_group) JUndefined JUndefined JUndefined =
       Inl (TodoValidationError ''Todo text must be a non-empty string'')"
    by (simp add: TodoItem_new_def validateText_def)
  have v: "validateText (JStr (js ''   '')) =
             Inl (TodoValidationError ''Todo text cannot be empty or whitespace only'')"
    by (simp add: validateText_def trim_def is_ws_def js_def)
  have g: "find (\<lambda>g. strict_eq (g_id g) (g_id ex_group)) (groups ex_manager) = Some ex_group"
    by (simp add: ex_manager_def ex_group_def)
  have c: "addTodo (ex_reads 1700000000123 ''q8w2'' ''2023-11-14T22:13:20.123Z'') ex_manager
       ex_store (JStr (js ''   '')) (g_id ex_group) =
       (Inl (TodoValidationError ''Todo text cannot be empty or whitespace only''),
        ex_manager, ex_store)"
    using v g by (rule addTodo_invalid_text)
  show ?thesis
    by (intro conjI a b c)
qed

section \<open>Adding a todo\<close>

text \<open>
  C5, as the code has it. For a text that is a string: when \<open>groupId\<close> matches no
  group, \<open>addTodo\<close> throws the \<open>TodoValidationError\<close> "Group not found" and leaves the
  manager and the store unchanged, whether the text is valid or not. When \<open>groupId\<close>
  matches a group and is a non-empty string, and the text is valid, a new todo with
  that \<open>groupId\<close>, the trimmed text, \<open>completed = false\<close> and an empty description is
  appended to the todos; it is returned when the store accepts the write, and the
  \<open>StorageError\<close> is thrown otherwise.
\<close>

theorem addTodo_checks_group:
  "(find (\<lambda>g. strict_eq (g_id g) groupId) (groups m) = None \<longrightarrow>
      addTodo r m s (JStr txt) groupId = (Inl (TodoValidationError ''Group not found''), m, s))
   \<and> (find (\<lambda>g. strict_eq (g_id g) groupId) (groups m) \<noteq> None
        \<and> validateText (JStr txt) = Inr () \<and> validateGroupId groupId = Inr () \<longrightarrow>
      addTodo r m s (JStr txt) groupId =
        (if rejects s (calls s) then Inl (StorageError ''Failed to add todo item'')
         else Inr \<lparr> t_id = JStr (generateId_item r), t_text = trim txt, t_groupId = groupId,
                    t_completed = False, t_description = JStr [],
                    t_createdAt = createdAt_now r, t_updatedAt = updatedAt_now r \<rparr>,
         m\<lparr> todos := todos m @
               [\<lparr> t_id = JStr (generateId_item r), t_text = trim txt, t_groupId = groupId,
                  t_completed = False, t_description = JStr [],
                  t_createdAt = createdAt_now r, t_updatedAt = updatedAt_now r \<rparr>] \<rparr>,
         snd (saveTodos
               (m\<lparr> todos := todos m @
                  [\<lparr> t_id = JStr (generateId_item r), t_text = trim txt, t_groupId = groupId,
                     t_completed = False, t_description = JStr [],
                     t_createdAt = createdAt_now r, t_updatedAt = updatedAt_now r \<rparr>] \<rparr>) s)))"
proof (intro conjI impI)
  assume "find (\<lambda>g. strict_eq (g_id g) groupId) (groups m) = None"
  then show "addTodo r m s (JStr txt) groupId =
               (Inl (TodoValidationError ''Group not found''), m, s)"
    by (simp add: addTodo_def)
next
  let ?todo = "\<lparr> t_id = JStr (generateId_item r), t_text = trim txt, t_groupId = groupId,
                  t_completed = False, t_description = JStr [],
                  t_createdAt = createdAt_now r, t_updatedAt = updatedAt_now r \<rparr>"
  assume h: "find (\<lambda>g. strict_eq (g_id g) groupId) (groups m) \<noteq> None
        \<and> validateText (JStr txt) = Inr () \<and> validateGroupId groupId = Inr ()"
  then obtain g where g: "find (\<lambda>g. strict_eq (g_id g) groupId) (groups m) = Some g"
    by auto
  from h have new: "TodoItem_new r (JStr txt) groupId JUndefined JUndefined JUndefined = Inr ?todo"
    by (simp add: TodoItem_new_valid)
  show "addTodo r m s (JStr txt) groupId =
          (if rejects s (calls s) then Inl (StorageError ''Failed to add todo item'')
           else Inr ?todo,
           m\<lparr> todos := todos m @ [?todo] \<rparr>,
           snd (saveTodos (m\<lparr> todos := todos m @ [?todo] \<rparr>) s))"
    by (simp add: addTodo_def g new Let_def saveTodos_result)
qed

theorem addTodo_checks_group_witness:
  "find (\<lambda>g. strict_eq (g_id g) (JStr (js ''group_none''))) (groups ex_manager) = None
   \<and> addTodo (ex_reads 1700000000123 ''q8w2'' ''2023-11-14T22:13:20.123Z'') ex_manager ex_store
       (JStr (js ''Buy milk'')) (JStr (js ''group_none'')) =
       (Inl (TodoValidationError ''Group not found''), ex_manager, ex_store)
   \<and> find (\<lambda>g. strict_eq (g_id g) (g_id ex_group)) (groups (ex_manager\<lparr> todos := [] \<rparr>)) \<noteq> None
   \<and> fst (addTodo (ex_reads 1700000000123 ''q8w2'' ''2023-11-14T22:13:20.123Z'')
            (ex_manager\<lparr> todos := [] \<rparr>) ex_store (JStr (js ''Buy milk'')) (g_id ex_group)) =
       Inr ex_todo
   \<and> fst (snd (addTodo (ex_reads 1700000000123 ''q8w2'' ''2023-11-14T22:13:20.123Z'')
            (ex_manager\<lparr> todos := [] \<rparr>) ex_store (JStr (js ''Buy milk'')) (g_id ex_group))) =
       ex_manager"
proof -
  let ?r = "ex_reads 1700000000123 ''q8w2'' ''2023-11-14T22:13:20.123Z''"
  have n: "find (\<lambda>g. strict_eq (g_id g) (JStr (js ''group_none''))) (groups ex_manager) = None"
    by (simp add: ex_manager_def ex_group_def js_inject)
  have f: "find (\<lambda>g. strict_eq (g_id g) (g_id ex_group)) (groups (ex_manager\<lparr> todos := [] \<rparr>))
             \<noteq> None"
    by (simp add: ex_manager_def ex_group_def)
  have v: "validateGroupId (g_id ex_group) = Inr ()"
    by (simp add: validateGroupId_def ex_group_def js_def)
  have t: "\<lparr> t_id = JStr (generateId_item ?r), t_text = trim (js ''Buy milk''),
             t_groupId = g_id ex_group, t_completed = False, t_description = JStr [],
             t_createdAt = createdAt_now ?r, t_updatedAt = updatedAt_now ?r \<rparr> = ex_todo"
    by (simp add: ex_todo_id Buy_milk_valid ex_todo_def ex_group_def ex_reads_stamps)
  have a: "\<not> rejects ex_store (calls ex_store)"
    by (simp add: ex_store_def)
  have m: "ex_manager\<lparr> todos := [] \<rparr>\<lparr> todos := todos (ex_manager\<lparr> todos := [] \<rparr>) @ [ex_todo] \<rparr>
             = ex_manager"
    by (simp add: ex_manager_def)
  note w1 = addTodo_checks_group [of "JStr (js ''group_none'')" ex_manager ?r ex_store
      "js ''Buy milk''"]
  note w2 = addTodo_checks_group [of "g_id ex_group" "ex_manager\<lparr> todos := [] \<rparr>" ?r ex_store
      "js ''Buy milk''"]
  from w1 n have c1: "addTodo ?r ex_manager ex_store (JStr (js ''Buy milk''))
       (JStr (js ''group_none'')) =
       (Inl (TodoValidationError ''Group not found''), ex_manager, ex_store)"
    by blast
  from w2 f v Buy_milk_valid(1)
  have "addTodo ?r (ex_manager\<lparr> todos := [] \<rparr>) ex_store (JStr (js ''Buy milk'')) (g_id ex_group) =
        (if rejects ex_store (calls ex_store) then Inl (StorageError ''Failed to add todo item'')
         else Inr ex_todo,
         ex_manager\<lparr> todos := [] \<rparr>\<lparr> todos := todos (ex_manager\<lparr> todos := [] \<rparr>) @ [ex_todo] \<rparr>,
         snd (saveTodos
               (ex_manager\<lparr> todos := [] \<rparr>
                  \<lparr> todos := todos (ex_manager\<lparr> todos := [] \<rparr>) @ [ex_todo] \<rparr>) ex_store))"
    unfolding t by blast
  then have c2: "fst (addTodo ?r (ex_manager\<lparr> todos := [] \<rparr>) ex_store (JStr (js ''Buy milk''))
                     (g_id ex_group)) = Inr ex_todo"
    and c3: "fst (snd (addTodo ?r (ex_manager\<lparr> todos := [] \<rparr>) ex_store (JStr (js ''Buy milk''))
                     (g_id ex_group))) = ex_manager"
    using a by (simp_all only: fst_conv snd_conv m if_False)
  show ?thesis
    by (intro conjI n c1 f c2 c3)
qed

text \<open>
  An existing \<open>groupId\<close> that is no string: a store holds a group record with the id 5,
  which \<open>fromJSON\<close> keeps as it is. \<open>addTodo\<close> with a valid text and the id 5 finds the
  group, and the constructor's \<open>validateGroupId\<close> refuses the id: the call throws a
  \<open>TodoValidationError\<close> and appends nothing. And with the number 42 as text and an
  unknown group, the error is the \<open>StorageError\<close> of the log line.
\<close>

lemma ex_initialize_numeric:
  "initialize ex_host ex_load_reads ex_load_reads (ex_load_reads 0) TodoManager_new
     ex_numeric_store = (Inr (), ex_numeric, ex_numeric_store\<lparr> calls := 2 \<rparr>)"
proof -
  have v: "validateName (JStr (js ''Inbox'')) = Inr ()" and t: "trim (js ''Inbox'') = js ''Inbox''"
    by (simp_all add: validateName_def trim_def js_def is_ws_def MAX_GROUP_NAME_LENGTH_def)
  have "TodoGroup_new ex_host (ex_load_reads 0) (JStr (js ''Inbox'')) (JNum (Fin 0))
          (JNum (Fin 5)) = Inr ex_inbox"
    by (simp add: TodoGroup_new_valid [OF v] t Number_or_0_JNum ex_inbox_def ex_load_reads_def
          ex_reads_stamps)
  then have pg: "parse_groups ex_host ex_load_reads
             [JObj [(js ''id'', JNum (Fin 5)), (js ''name'', JStr (js ''Inbox'')),
                    (js ''position'', JNum (Fin 0))]] = [ex_inbox]"
    by (simp add: parse_groups_def enumerate_simps map_filter_simps TodoGroup_fromJSON_def
          js_inject ex_load_reads_def)
  have lg: "loadGroups ex_host ex_load_reads TodoManager_new ex_numeric_store =
              (Inr (), TodoManager_new\<lparr> groups := [ex_inbox] \<rparr>,
               ex_numeric_store\<lparr> calls := 1 \<rparr>)"
    by (simp add: loadGroups_def sync_get_def ex_numeric_store_def ex_store_def pg)
  have lt: "loadTodos ex_load_reads (TodoManager_new\<lparr> groups := [ex_inbox] \<rparr>)
              (ex_numeric_store\<lparr> calls := 1 \<rparr>) =
              (Inr (), TodoManager_new\<lparr> groups := [ex_inbox], todos := [] \<rparr>,
               ex_numeric_store\<lparr> calls := 2 \<rparr>)"
    by (simp add: loadTodos_def sync_get_def ex_numeric_store_def ex_store_def parse_todos_Nil)
  have m: "TodoManager_new\<lparr> groups := [ex_inbox], todos := [], isInitialized := True \<rparr> =
             ex_numeric"
    by (simp add: TodoManager_new_def ex_numeric_def)
  have "initialize ex_host ex_load_reads ex_load_reads (ex_load_reads 0) TodoManager_new
          ex_numeric_store =
        (Inr (), TodoManager_new\<lparr> groups := [ex_inbox], todos := [], isInitialized := True \<rparr>,
         ex_numeric_store\<lparr> calls := 2 \<rparr>)"
    unfolding initialize_def lg lt prod.case sum.case by simp
  then show ?thesis
    by (simp only: m)
qed

theorem addTodo_group_id_counterexample:
  "initialize ex_host ex_load_reads ex_load_reads (ex_load_reads 0) TodoManager_new
     ex_numeric_store = (Inr (), ex_numeric, ex_numeric_store\<lparr> calls := 2 \<rparr>)
   \<and> find (\<lambda>g. strict_eq (g_id g) (JNum (Fin 5))) (groups ex_numeric) = Some ex_inbox
   \<and> validateText (JStr (js ''Buy milk'')) = Inr ()
   \<and> addTodo (ex_reads 1700000000123 ''q8w2'' ''2023-11-14T22:13:20.123Z'') ex_numeric
       (ex_numeric_store\<lparr> calls := 2 \<rparr>) (JStr (js ''Buy milk'')) (JNum (Fin 5)) =
       (Inl (TodoValidationError ''Group ID must be a non-empty string''), ex_numeric,
        ex_numeric_store\<lparr> calls := 2 \<rparr>)
   \<and> find (\<lambda>g. strict_eq (g_id g) (JStr (js ''group_none''))) (groups ex_manager) = None
   \<and> addTodo (ex_reads 1700000000123 ''q8w2'' ''2023-11-14T22:13:20.123Z'') ex_manager ex_store
       (JNum (Fin 42)) (JStr (js ''group_none'')) =
       (Inl (StorageError ''Failed to add todo item''), ex_manager, ex_store)"
proof -
  have f: "find (\<lambda>g. strict_eq (g_id g) (JNum (Fin 5))) (groups ex_numeric) = Some ex_inbox"
    by (simp add: ex_numeric_def ex_inbox_def)
  have n: "TodoItem_new (ex_reads 1700000000123 ''q8w2'' ''2023-11-14T22:13:20.123Z'')
             (JStr (js ''Buy milk'')) (JNum (Fin 5)) JUndefined JUndefined JUndefined =
           Inl (TodoValidationError ''Group ID must be a non-empty string'')"
    by (simp add: TodoItem_new_def Buy_milk_valid validateGroupId_def)
  have a: "addTodo (ex_reads 1700000000123 ''q8w2'' ''2023-11-14T22:13:20.123Z'') ex_numeric
       (ex_numeric_store\<lparr> calls := 2 \<rparr>) (JStr (js ''Buy milk'')) (JNum (Fin 5)) =
       (Inl (TodoValidationError ''Group ID must be a non-empty string''), ex_numeric,
        ex_numeric_store\<lparr> calls := 2 \<rparr>)"
    by (simp add: addTodo_def f n)
  have g: "find (\<lambda>g. strict_eq (g_id g) (JStr (js ''group_none''))) (groups ex_manager) = None"
    by (simp add: ex_manager_def ex_group_def js_inject)
  have b: "addTodo (ex_reads 1700000000123 ''q8w2'' ''2023-11-14T22:13:20.123Z'') ex_manager
       ex_store (JNum (Fin 42)) (JStr (js ''group_none'')) =
       (Inl (StorageError ''Failed to add todo item''), ex_manager, ex_store)"
    by (simp add: addTodo_def)
  show ?thesis
    by (intro conjI ex_initialize_numeric f Buy_milk_valid(1) a g b)
qed

section \<open>Clearing completed todos\<close>

text \<open>
  C6. \<open>clearCompleted\<close> leaves exactly the todos that are not completed, in their order,
  and changes no group. It returns the number of completed todos it found (which is
  the number removed) when the store accepts the write, and throws the \<open>StorageError\<close>
  otherwise. A second call right after returns 0 (under the same condition) and removes
  nothing.
\<close>

theorem clearCompleted_removes_completed:
  assumes "clearCompleted m s = (r, m', s')"
  shows "todos m' = filter (\<lambda>todo. \<not> t_completed todo) (todos m)
       \<and> groups m' = groups m
       \<and> r = (if rejects s (calls s) then Inl (StorageError ''Failed to clear completed todos'')
              else Inr (length (filter t_completed (todos m))))
       \<and> length (todos m) = length (todos m') + length (filter t_completed (todos m))
       \<and> fst (clearCompleted m' s') =
           (if rejects s' (calls s') then Inl (StorageError ''Failed to clear completed todos'')
            else Inr 0)
       \<and> todos (fst (snd (clearCompleted m' s'))) = todos m'"
proof -
  from assms have m': "m' = m\<lparr> todos := filter (\<lambda>todo. \<not> t_completed todo) (todos m) \<rparr>"
    and r: "r = (if rejects s (calls s) then Inl (StorageError ''Failed to clear completed todos'')
              else Inr (length (filter t_completed (todos m))))"
    by (auto simp: clearCompleted_def Let_def saveTodos_result split: if_splits)
  have len: "length (todos m) = length (todos m') + length (filter t_completed (todos m))"
    unfolding m' using sum_length_filter_compl [of t_completed "todos m"] by simp
  have none: "filter t_completed (todos m') = []"
    unfolding m' by (simp add: filter_empty_conv)
  have again: "fst (clearCompleted m' s') =
           (if rejects s' (calls s') then Inl (StorageError ''Failed to clear completed todos'')
            else Inr 0)"
    by (simp add: clearCompleted_def Let_def saveTodos_result none)
  have again': "todos (fst (snd (clearCompleted m' s'))) = todos m'"
    unfolding m' by (simp add: clearCompleted_def Let_def saveTodos_result)
  have a: "todos m' = filter (\<lambda>todo. \<not> t_completed todo) (todos m)"
    and b: "groups m' = groups m"
    by (simp_all add: m')
  show ?thesis
    by (intro conjI a b r len again again')
qed

theorem clearCompleted_removes_completed_witness:
  "clearCompleted (ex_manager\<lparr> todos := [ex_done, ex_todo] \<rparr>) ex_store =
     (Inr 1, ex_manager, snd (saveTodos ex_manager ex_store))
   \<and> todos ex_manager = [ex_todo]
   \<and> fst (clearCompleted ex_manager (snd (saveTodos ex_manager ex_store))) = Inr 0"
proof -
  have e: "clearCompleted (ex_manager\<lparr> todos := [ex_done, ex_todo] \<rparr>) ex_store =
             (Inr 1, ex_manager, snd (saveTodos ex_manager ex_store))"
    by (simp add: clearCompleted_def saveTodos_result ex_manager_def ex_done_def ex_todo_def
          ex_store_def)
  have r: "\<not> rejects (snd (saveTodos ex_manager ex_store))
               (calls (snd (saveTodos ex_manager ex_store)))"
    by (simp add: saveTodos_result ex_store_def)
  show ?thesis
    using e r clearCompleted_removes_completed [OF e] by (simp add: ex_manager_def)
qed

section \<open>Toggling a todo\<close>

lemma toggleTodo_found:
  assumes "findIndex (\<lambda>todo. strict_eq (t_id todo) ident) (todos m) = Some i"
  shows "toggleTodo now m s ident =
           (if rejects s (calls s) then Inl (StorageError ''Failed to toggle todo completion'')
            else Inr True,
            m\<lparr> todos := (todos m)[i := toggleCompletion now (todos m ! i)] \<rparr>,
            snd (saveTodos (m\<lparr> todos := (todos m)[i := toggleCompletion now (todos m ! i)] \<rparr>) s))"
  using assms by (simp add: toggleTodo_def Let_def saveTodos_result)

lemma toggleTodo_at:
  assumes "findIndex (\<lambda>todo. strict_eq (t_id todo) ident) (todos m) = Some i"
    and "toggleTodo now m s ident = (r, m', s')"
  shows "todos m' = (todos m)[i := toggleCompletion now (todos m ! i)]"
    and "findIndex (\<lambda>todo. strict_eq (t_id todo) ident) (todos m') = Some i"
    and "r = (if rejects s (calls s) then Inl (StorageError ''Failed to toggle todo completion'')
              else Inr True)"
proof -
  note tf = toggleTodo_found [OF assms(1), of now s]
  from assms(2) tf show a: "todos m' = (todos m)[i := toggleCompletion now (todos m ! i)]"
    by auto
  from assms(1) have "strict_eq (t_id (todos m ! i)) ident"
    by (auto dest: findIndex_Some)
  then have "strict_eq (t_id (toggleCompletion now (todos m ! i))) ident"
    by (simp add: toggleCompletion_def)
  then show "findIndex (\<lambda>todo. strict_eq (t_id todo) ident) (todos m') = Some i"
    unfolding a by (rule findIndex_update [OF assms(1)])
  from assms(2) tf
  show "r = (if rejects s (calls s) then Inl (StorageError ''Failed to toggle todo completion'')
              else Inr True)"
    by auto
qed

text \<open>
  C7, as the code has it. Let \<open>t\<close> be the todo that \<open>ident\<close> designates. After one
  \<open>toggleTodo\<close> it is \<open>t\<close> with \<open>completed\<close> negated and \<open>updatedAt\<close> set to the clock
  reading of that call; after a second one it is \<open>t\<close> with only \<open>updatedAt\<close> changed, to
  the reading of the second call. The \<open>completed\<close> flags and the creation times of all
  todos are then as at the start. Each call returns \<^verbatim>\<open>true\<close> when the store accepts its
  write. Nothing makes a reading differ from the creation time.
\<close>

theorem toggleTodo_twice:
  assumes "find (\<lambda>todo. strict_eq (t_id todo) ident) (todos m) = Some t"
    and "toggleTodo now1 m s ident = (r1, m1, s1)"
    and "toggleTodo now2 m1 s1 ident = (r2, m2, s2)"
  shows "find (\<lambda>todo. strict_eq (t_id todo) ident) (todos m1) =
           Some (t\<lparr> t_completed := \<not> t_completed t, t_updatedAt := now1 \<rparr>)
       \<and> find (\<lambda>todo. strict_eq (t_id todo) ident) (todos m2) = Some (t\<lparr> t_updatedAt := now2 \<rparr>)
       \<and> map t_completed (todos m2) = map t_completed (todos m)
       \<and> map t_createdAt (todos m2) = map t_createdAt (todos m)
       \<and> r1 = (if rejects s (calls s)
               then Inl (StorageError ''Failed to toggle todo completion'') else Inr True)
       \<and> r2 = (if rejects s1 (calls s1)
               then Inl (StorageError ''Failed to toggle todo completion'') else Inr True)"
proof -
  let ?P = "\<lambda>todo. strict_eq (t_id todo) ident"
  from assms(1) obtain i where i: "findIndex ?P (todos m) = Some i" and t: "todos m ! i = t"
    by (auto simp: find_findIndex)
  from i have il: "i < length (todos m)"
    by (auto dest: findIndex_Some)
  note one = toggleTodo_at [OF i assms(2)]
  note two = toggleTodo_at [OF one(2) assms(3)]
  have t1: "todos m1 ! i = t\<lparr> t_completed := \<not> t_completed t, t_updatedAt := now1 \<rparr>"
    using il by (simp add: one(1) t toggleCompletion_def)
  have "todos m2 =
          (todos m1)[i := toggleCompletion now2
                            (t\<lparr> t_completed := \<not> t_completed t, t_updatedAt := now1 \<rparr>)]"
    using two(1) by (simp only: t1)
  then have m2: "todos m2 = (todos m)[i := t\<lparr> t_updatedAt := now2 \<rparr>]"
    by (simp add: one(1) toggleCompletion_def)
  have t2: "todos m2 ! i = t\<lparr> t_updatedAt := now2 \<rparr>"
    using il by (simp add: m2)
  have f1: "find ?P (todos m1) =
              Some (t\<lparr> t_completed := \<not> t_completed t, t_updatedAt := now1 \<rparr>)"
    using one(2) t1 by (auto simp: find_findIndex)
  have f2: "find ?P (todos m2) = Some (t\<lparr> t_updatedAt := now2 \<rparr>)"
    using two(2) t2 by (auto simp: find_findIndex)
  have "map t_completed (todos m2) = (map t_completed (todos m))[i := t_completed t]"
    by (simp add: m2 map_update)
  also have "\<dots> = map t_completed (todos m)"
    using il t by (simp add: list_update_same_conv)
  finally have c: "map t_completed (todos m2) = map t_completed (todos m)" .
  have "map t_createdAt (todos m2) = (map t_createdAt (todos m))[i := t_createdAt t]"
    by (simp add: m2 map_update)
  also have "\<dots> = map t_createdAt (todos m)"
    using il t by (simp add: list_update_same_conv)
  finally have d: "map t_createdAt (todos m2) = map t_createdAt (todos m)" .
  show ?thesis
    by (intro conjI f1 f2 c d one(3) two(3))
qed

theorem toggleTodo_twice_witness:
  "find (\<lambda>todo. strict_eq (t_id todo) (t_id ex_todo)) (todos ex_manager) = Some ex_todo
   \<and> find (\<lambda>todo. strict_eq (t_id todo) (t_id ex_todo))
       (todos (fst (snd (toggleTodo (js ''2023-11-15T09:00:00.000Z'') ex_manager ex_store
                           (t_id ex_todo))))) =
       Some (ex_todo\<lparr> t_completed := True, t_updatedAt := js ''2023-11-15T09:00:00.000Z'' \<rparr>)
   \<and> find (\<lambda>todo. strict_eq (t_id todo) (t_id ex_todo))
       (todos (fst (snd (toggleTodo (js ''2023-11-15T09:00:07.250Z'')
          (fst (snd (toggleTodo (js ''2023-11-15T09:00:00.000Z'') ex_manager ex_store
                       (t_id ex_todo))))
          (snd (snd (toggleTodo (js ''2023-11-15T09:00:00.000Z'') ex_manager ex_store
                       (t_id ex_todo))))
          (t_id ex_todo))))) =
       Some (ex_todo\<lparr> t_updatedAt := js ''2023-11-15T09:00:07.250Z'' \<rparr>)
   \<and> fst (toggleTodo (js ''2023-11-15T09:00:00.000Z'') ex_manager ex_store (t_id ex_todo)) =
       Inr True"
proof -
  let ?one = "toggleTodo (js ''2023-11-15T09:00:00.000Z'') ex_manager ex_store (t_id ex_todo)"
  let ?two = "toggleTodo (js ''2023-11-15T09:00:07.250Z'') (fst (snd ?one)) (snd (snd ?one))
                (t_id ex_todo)"
  have f: "find (\<lambda>todo. strict_eq (t_id todo) (t_id ex_todo)) (todos ex_manager) = Some ex_todo"
    by (simp add: ex_manager_def ex_todo_def)
  have a: "?one = (fst ?one, fst (snd ?one), snd (snd ?one))"
    by simp
  have b: "?two = (fst ?two, fst (snd ?two), snd (snd ?two))"
    by simp
  have r: "\<not> rejects ex_store (calls ex_store)"
    by (simp add: ex_store_def)
  have c: "t_completed ex_todo = False"
    by (simp add: ex_todo_def)
  note w = toggleTodo_twice [OF f a b]
  from w have w1: "find (\<lambda>todo. strict_eq (t_id todo) (t_id ex_todo)) (todos (fst (snd ?one))) =
       Some (ex_todo\<lparr> t_completed := \<not> t_completed ex_todo,
                      t_updatedAt := js ''2023-11-15T09:00:00.000Z'' \<rparr>)"
    and w2: "find (\<lambda>todo. strict_eq (t_id todo) (t_id ex_todo)) (todos (fst (snd ?two))) =
       Some (ex_todo\<lparr> t_updatedAt := js ''2023-11-15T09:00:07.250Z'' \<rparr>)"
    and w3: "fst ?one = (if rejects ex_store (calls ex_store)
               then Inl (StorageError ''Failed to toggle todo completion'') else Inr True)"
    by blast+
  from w1 have w1': "find (\<lambda>todo. strict_eq (t_id todo) (t_id ex_todo))
       (todos (fst (snd ?one))) =
       Some (ex_todo\<lparr> t_completed := True, t_updatedAt := js ''2023-11-15T09:00:00.000Z'' \<rparr>)"
    by (simp only: c not_False_eq_True)
  from w3 r have w3': "fst ?one = Inr True"
    by (simp only: if_False)
  show ?thesis
    by (intro conjI f w1' w2 w3')
qed

text \<open>
  A toggle in the millisecond of the creation: \<open>addTodo\<close> creates "Buy milk" at
  22:13:20.123 and \<open>toggleTodo\<close> runs at the same clock reading. The call returns
  \<^verbatim>\<open>true\<close>, and the todo's \<open>updatedAt\<close> equals its \<open>createdAt\<close>.
\<close>

theorem toggleTodo_updatedAt_counterexample:
  "addTodo (ex_reads 1700000000123 ''q8w2'' ''2023-11-14T22:13:20.123Z'')
     (ex_manager\<lparr> todos := [] \<rparr>) ex_store (JStr (js ''Buy milk'')) (g_id ex_group) =
     (Inr ex_todo, ex_manager, snd (saveTodos ex_manager ex_store))
   \<and> fst (toggleTodo (js ''2023-11-14T22:13:20.123Z'') ex_manager
            (snd (saveTodos ex_manager ex_store)) (t_id ex_todo)) = Inr True
   \<and> todos (fst (snd (toggleTodo (js ''2023-11-14T22:13:20.123Z'') ex_manager
            (snd (saveTodos ex_manager ex_store)) (t_id ex_todo)))) =
       [ex_todo\<lparr> t_completed := True \<rparr>]
   \<and> t_updatedAt (ex_todo\<lparr> t_completed := True \<rparr>) = t_createdAt ex_todo"
proof -
  have a: "fst (toggleTodo (js ''2023-11-14T22:13:20.123Z'') ex_manager
            (snd (saveTodos ex_manager ex_store)) (t_id ex_todo)) = Inr True"
    by (simp add: toggleTodo_def saveTodos_result ex_manager_def ex_todo_def ex_store_def)
  have b: "todos (fst (snd (toggleTodo (js ''2023-11-14T22:13:20.123Z'') ex_manager
            (snd (saveTodos ex_manager ex_store)) (t_id ex_todo)))) =
       [ex_todo\<lparr> t_completed := True \<rparr>]"
    by (simp add: toggleTodo_def toggleCompletion_def saveTodos_result ex_manager_def
          ex_todo_def ex_store_def)
  have c: "t_updatedAt (ex_todo\<lparr> t_completed := True \<rparr>) = t_createdAt ex_todo"
    by (simp add: ex_todo_def)
  show ?thesis
    by (intro conjI ex_addTodo a b c)
qed

section \<open>Initialization on an empty store\<close>

lemma createDefaultGroup_empty:
  assumes "groups m = []"
  shows "createDefaultGroup host r m s =
           (if rejects s (calls s) then Inl (StorageError ''Failed to create default group'')
            else Inr (default_group r),
            m\<lparr> groups := [default_group r] \<rparr>,
            snd (saveGroups (m\<lparr> groups := [default_group r] \<rparr>) s))"
proof -
  have new: "TodoGroup_new host r (JStr (js ''To Do'')) (JNum (Fin 0)) JUndefined =
               Inr (default_group r)"
    by (simp add: TodoGroup_new_valid [OF To_Do_valid] To_Do_trim default_group_def
          Number_or_0_JNum)
  show ?thesis
    by (simp add: createDefaultGroup_def addGroup_def assms new Let_def Array_sort_def
          saveGroups_result)
qed

text \<open>
  C8. When the store holds no groups and no todos (each key absent, falsy or an empty
  array) and answers the two reads, \<open>initialize\<close> leaves the manager with exactly one
  group, named "To Do", at position 0, and no todos. It returns normally, with that
  group written to the store, when the store accepts the write, and throws the
  \<open>StorageError\<close> otherwise.
\<close>

theorem initialize_empty_store:
  assumes "\<not> ToBoolean (items s GROUPS_STORAGE_KEY) \<or> items s GROUPS_STORAGE_KEY = JArr []"
    and "\<not> ToBoolean (items s STORAGE_KEY) \<or> items s STORAGE_KEY = JArr []"
    and "\<not> rejects s (calls s)" and "\<not> rejects s (Suc (calls s))"
  shows "groups (fst (snd (initialize host rg rt rd m s))) = [default_group rd]
       \<and> g_name (default_group rd) = js ''To Do''
       \<and> g_position (default_group rd) = Fin 0
       \<and> todos (fst (snd (initialize host rg rt rd m s))) = []
       \<and> fst (initialize host rg rt rd m s) =
           (if rejects s (Suc (Suc (calls s)))
            then Inl (StorageError ''Failed to initialize todo manager'') else Inr ())
       \<and> items (snd (snd (initialize host rg rt rd m s))) GROUPS_STORAGE_KEY =
           (if rejects s (Suc (Suc (calls s))) then items s GROUPS_STORAGE_KEY
            else JArr [TodoGroup_toJSON (default_group rd)])"
proof -
  let ?s1 = "s\<lparr> calls := Suc (calls s) \<rparr>"
  let ?s2 = "s\<lparr> calls := Suc (Suc (calls s)) \<rparr>"
  let ?m2 = "m\<lparr> groups := [], todos := [] \<rparr>"
  have lg: "loadGroups host rg m s = (Inr (), m\<lparr> groups := [] \<rparr>, ?s1)"
    using assms(1,3) by (rule loadGroups_empty)
  have lt: "loadTodos rt (m\<lparr> groups := [] \<rparr>) ?s1 = (Inr (), ?m2, ?s2)"
    using assms(2,4) by (simp add: loadTodos_empty)
  have cd: "createDefaultGroup host rd ?m2 ?s2 =
           (if rejects s (Suc (Suc (calls s)))
            then Inl (StorageError ''Failed to create default group'')
            else Inr (default_group rd),
            ?m2\<lparr> groups := [default_group rd] \<rparr>,
            snd (saveGroups (?m2\<lparr> groups := [default_group rd] \<rparr>) ?s2))"
    by (simp add: createDefaultGroup_empty)
  have ini: "initialize host rg rt rd m s =
           (if rejects s (Suc (Suc (calls s)))
            then (Inl (StorageError ''Failed to initialize todo manager''),
                  ?m2\<lparr> groups := [default_group rd] \<rparr>,
                  snd (saveGroups (?m2\<lparr> groups := [default_group rd] \<rparr>) ?s2))
            else (Inr (), ?m2\<lparr> groups := [default_group rd], isInitialized := True \<rparr>,
                  snd (saveGroups (?m2\<lparr> groups := [default_group rd] \<rparr>) ?s2)))"
    by (simp add: initialize_def lg lt cd)
  show ?thesis
    by (simp add: ini saveGroups_result default_group_def)
qed

theorem initialize_empty_store_witness:
  "items ex_store GROUPS_STORAGE_KEY = JUndefined
   \<and> items ex_store STORAGE_KEY = JUndefined
   \<and> groups (fst (snd (initialize ex_host ex_load_reads ex_load_reads
                (ex_reads 1700000000000 ''k3j9x2'' ''2023-11-14T22:13:20.000Z'')
                TodoManager_new ex_store))) =
       [ex_group\<lparr> g_name := js ''To Do'' \<rparr>]
   \<and> fst (initialize ex_host ex_load_reads ex_load_reads
            (ex_reads 1700000000000 ''k3j9x2'' ''2023-11-14T22:13:20.000Z'')
            TodoManager_new ex_store) = Inr ()"
proof -
  let ?rd = "ex_reads 1700000000000 ''k3j9x2'' ''2023-11-14T22:13:20.000Z''"
  have g: "\<not> ToBoolean (items ex_store GROUPS_STORAGE_KEY)
           \<or> items ex_store GROUPS_STORAGE_KEY = JArr []"
    and t: "\<not> ToBoolean (items ex_store STORAGE_KEY) \<or> items ex_store STORAGE_KEY = JArr []"
    and a: "\<not> rejects ex_store (calls ex_store)" "\<not> rejects ex_store (Suc (calls ex_store))"
    by (simp_all add: ex_store_def)
  have a3: "\<not> rejects ex_store (Suc (Suc (calls ex_store)))"
    by (simp add: ex_store_def)
  have d: "default_group ?rd = ex_group\<lparr> g_name := js ''To Do'' \<rparr>"
    by (simp add: default_group_def ex_group_id ex_reads_stamps ex_group_def)
  note w = initialize_empty_store [OF g t a, of ex_host ex_load_reads ex_load_reads ?rd
      TodoManager_new]
  from w have w1: "groups (fst (snd (initialize ex_host ex_load_reads ex_load_reads ?rd
                TodoManager_new ex_store))) = [default_group ?rd]"
    and w2: "fst (initialize ex_host ex_load_reads ex_load_reads ?rd TodoManager_new ex_store) =
           (if rejects ex_store (Suc (Suc (calls ex_store)))
            then Inl (StorageError ''Failed to initialize todo manager'') else Inr ())"
    by blast+
  from w1 have w1': "groups (fst (snd (initialize ex_host ex_load_reads ex_load_reads ?rd
                TodoManager_new ex_store))) = [ex_group\<lparr> g_name := js ''To Do'' \<rparr>]"
    by (simp only: d)
  from w2 a3 have w2': "fst (initialize ex_host ex_load_reads ex_load_reads ?rd TodoManager_new
                              ex_store) = Inr ()"
    by (simp only: if_False)
  have u: "items ex_store GROUPS_STORAGE_KEY = JUndefined"
    "items ex_store STORAGE_KEY = JUndefined"
    by (simp_all add: ex_store_def)
  show ?thesis
    by (intro conjI u w1' w2')
qed

section \<open>Coercion of the position\<close>

text \<open>
  C9, as the code has it. For a valid name, the constructor (\<open>built\<close> below) and
  \<open>updatePosition\<close> (\<open>moved\<close>) take the position \<^verbatim>\<open>Number(position) || 0\<close>, value by value:
  0 for \<^verbatim>\<open>undefined\<close> (the omitted argument), \<^verbatim>\<open>null\<close> and \<^verbatim>\<open>false\<close>, 1 for \<^verbatim>\<open>true\<close>,
  a number itself unless it is \<open>NaN\<close>, which gives 0, what the host's parser reads from a
  string or from the string of an array, unless it reads \<open>NaN\<close>, which gives 0, and 0 for
  a plain object. They succeed on all of these but an object with an own property
  \<^verbatim>\<open>toString\<close> and an array that holds one: there \<^verbatim>\<open>Number\<close> raises \<^verbatim>\<open>TypeError\<close>,
  and both pass it on.
\<close>

theorem position_coerced:
  assumes "validateName (JStr s) = Inr ()"
  shows
    "(let create = (\<lambda>position. TodoGroup_new host r (JStr s) position ident);
          built = (\<lambda>p. Inr \<lparr> g_id = (if ToBoolean ident then ident
                                        else JStr (generateId_group r)),
                                g_name = trim s, g_position = p,
                                g_createdAt = createdAt_now r,
                                g_updatedAt = updatedAt_now r \<rparr>);
          update = (\<lambda>position. updatePosition host now g position);
          moved = (\<lambda>p. Inr (g\<lparr> g_position := p, g_updatedAt := now \<rparr>))
      in create JUndefined = built (Fin 0) \<and> update JUndefined = moved (Fin 0)
       \<and> create JNull = built (Fin 0) \<and> update JNull = moved (Fin 0)
       \<and> create (JBool b) = built (if b then Fin 1 else Fin 0)
       \<and> update (JBool b) = moved (if b then Fin 1 else Fin 0)
       \<and> create (JNum n) = built (if n = NaN then Fin 0 else n)
       \<and> update (JNum n) = moved (if n = NaN then Fin 0 else n)
       \<and> create (JStr str) = built (if host (JStr str) = NaN then Fin 0 else host (JStr str))
       \<and> update (JStr str) = moved (if host (JStr str) = NaN then Fin 0 else host (JStr str))
       \<and> create (JObj fs) =
           (if map_of fs (js ''toString'') = None then built (Fin 0) else Inl TypeError)
       \<and> update (JObj fs) =
           (if map_of fs (js ''toString'') = None then moved (Fin 0) else Inl TypeError)
       \<and> create (JArr xs) =
           (if list_ex toString_throws xs then Inl TypeError
            else built (if host (JArr xs) = NaN then Fin 0 else host (JArr xs)))
       \<and> update (JArr xs) =
           (if list_ex toString_throws xs then Inl TypeError
            else moved (if host (JArr xs) = NaN then Fin 0 else host (JArr xs))))"
  unfolding Let_def
  by (intro conjI)
     (auto simp: TodoGroup_new_valid [OF assms] updatePosition_def Number_or_0_def)

theorem position_coerced_witness:
  "validateName (JStr (js ''Work'')) = Inr ()
   \<and> TodoGroup_new ex_host (ex_reads 1700000000000 ''k3j9x2'' ''2023-11-14T22:13:20.000Z'')
       (JStr (js ''Work'')) (JStr (js ''left'')) JUndefined = Inr ex_group
   \<and> TodoGroup_new ex_host (ex_reads 1700000000000 ''k3j9x2'' ''2023-11-14T22:13:20.000Z'')
       (JStr (js ''Work'')) (JBool True) JUndefined = Inr (ex_group\<lparr> g_position := Fin 1 \<rparr>)
   \<and> TodoGroup_new ex_host (ex_reads 1700000000000 ''k3j9x2'' ''2023-11-14T22:13:20.000Z'')
       (JStr (js ''Work'')) (JObj []) JUndefined = Inr ex_group
   \<and> updatePosition ex_host (js ''2023-11-15T09:00:00.000Z'') ex_group (JNum (Fin 2)) =
       Inr (ex_group\<lparr> g_position := Fin 2, g_updatedAt := js ''2023-11-15T09:00:00.000Z'' \<rparr>)
   \<and> updatePosition ex_host (js ''2023-11-15T09:00:00.000Z'') ex_group JUndefined =
       Inr (ex_group\<lparr> g_updatedAt := js ''2023-11-15T09:00:00.000Z'' \<rparr>)"
proof -
  let ?r = "ex_reads 1700000000000 ''k3j9x2'' ''2023-11-14T22:13:20.000Z''"
  note p = position_coerced [OF Work_valid, of ex_host ?r JUndefined
      "js ''2023-11-15T09:00:00.000Z''" ex_group True "Fin 2" "js ''left''" "[]" "[]",
      unfolded Let_def]
  have g: "\<lparr> g_id = JStr (generateId_group ?r),
             g_name = trim (js ''Work''), g_position = q,
             g_createdAt = createdAt_now ?r, g_updatedAt = updatedAt_now ?r \<rparr>
           = ex_group\<lparr> g_position := q \<rparr>" for q
    by (simp add: ex_group_id Work_trim ex_reads_stamps ex_group_def)
  have z: "ex_group\<lparr> g_position := Fin 0 \<rparr> = ex_group"
    by (simp add: ex_group_def)
  have u: "ex_group\<lparr> g_position := Fin 0, g_updatedAt := t \<rparr> = ex_group\<lparr> g_updatedAt := t \<rparr>"
    for t
    by (simp add: ex_group_def)
  from p show ?thesis
    by (simp add: Work_valid g z u ex_host_def)
qed

text \<open>
  A position whose conversion raises: the object \<^verbatim>\<open>{toString: 'x'}\<close>. The constructor
  and \<open>updatePosition\<close> throw \<^verbatim>\<open>TypeError\<close>; \<open>addGroup\<close> turns it into its
  \<open>StorageError\<close> and adds nothing.
\<close>

theorem position_conversion_counterexample:
  "TodoGroup_new ex_host (ex_reads 1700000000000 ''k3j9x2'' ''2023-11-14T22:13:20.000Z'')
     (JStr (js ''Work'')) (JObj [(js ''toString'', JStr (js ''x''))]) JUndefined = Inl TypeError
   \<and> updatePosition ex_host (js ''2023-11-15T09:00:00.000Z'') ex_group
       (JObj [(js ''toString'', JStr (js ''x''))]) = Inl TypeError
   \<and> addGroup ex_host (ex_reads 1700000000000 ''k3j9x2'' ''2023-11-14T22:13:20.000Z'')
       ex_manager ex_store (JStr (js ''Work'')) (JObj [(js ''toString'', JStr (js ''x''))]) =
       (Inl (StorageError ''Failed to add group''), ex_manager, ex_store)"
proof -
  have n: "Number_or_0 ex_host (JObj [(js ''toString'', JStr (js ''x''))]) = Inl TypeError"
    by (simp add: Number_or_0_def)
  have a: "TodoGroup_new ex_host (ex_reads 1700000000000 ''k3j9x2'' ''2023-11-14T22:13:20.000Z'')
     (JStr (js ''Work'')) (JObj [(js ''toString'', JStr (js ''x''))]) JUndefined = Inl TypeError"
    by (simp add: TodoGroup_new_valid [OF Work_valid] n)
  have b: "updatePosition ex_host (js ''2023-11-15T09:00:00.000Z'') ex_group
       (JObj [(js ''toString'', JStr (js ''x''))]) = Inl TypeError"
    by (simp add: updatePosition_def n)
  have c: "addGroup ex_host (ex_reads 1700000000000 ''k3j9x2'' ''2023-11-14T22:13:20.000Z'')
       ex_manager ex_store (JStr (js ''Work'')) (JObj [(js ''toString'', JStr (js ''x''))]) =
       (Inl (StorageError ''Failed to add group''), ex_manager, ex_store)"
    by (simp add: addGroup_def a)
  show ?thesis
    by (intro conjI a b c)
qed

section \<open>Deserializing a todo with missing or mistyped optional fields\<close>

text \<open>
  C10. For a record object whose \<open>text\<close> and \<open>groupId\<close> are valid,
  \<open>TodoItem.fromJSON\<close> succeeds whatever \<open>completed\<close> and \<open>description\<close> hold:
  \<open>completed\<close> becomes \<^verbatim>\<open>Boolean(data.completed)\<close>, so \<^verbatim>\<open>false\<close> when the field is absent,
  and \<open>description\<close> becomes the stored value when that is truthy and the empty string
  otherwise, so the empty string when the field is absent.
\<close>

theorem fromJSON_coerces_optional_fields:
  assumes "validateText (get_prop (JObj fs) (js ''text'')) = Inr ()"
    and "validateGroupId (get_prop (JObj fs) (js ''groupId'')) = Inr ()"
  shows "\<exists>t. TodoItem_fromJSON r (JObj fs) = Inr t
           \<and> t_completed t = ToBoolean (get_prop (JObj fs) (js ''completed''))
           \<and> t_description t =
               (if ToBoolean (get_prop (JObj fs) (js ''description''))
                then get_prop (JObj fs) (js ''description'') else JStr [])
           \<and> (map_of fs (js ''completed'') = None \<longrightarrow> t_completed t = False)
           \<and> (map_of fs (js ''description'') = None \<longrightarrow> t_description t = JStr [])"
proof -
  let ?p = "get_prop (JObj fs)"
  let ?d = "if ToBoolean (?p (js ''description'')) then ?p (js ''description'') else JStr []"
  let ?t = "\<lparr> t_id = (if ToBoolean (?p (js ''id'')) then ?p (js ''id'')
                         else JStr (generateId_item r)),
              t_text = trim (case ?p (js ''text'') of JStr s \<Rightarrow> s | _ \<Rightarrow> []),
              t_groupId = ?p (js ''groupId''),
              t_completed = ToBoolean (?p (js ''completed'')),
              t_description = ?d,
              t_createdAt = createdAt_now r,
              t_updatedAt = updatedAt_now r \<rparr>"
  from assms(1) obtain s where tx: "?p (js ''text'') = JStr s"
    by (auto simp: validateText_Inr simp del: get_prop.simps)
  have dd: "(if ToBoolean ?d then ?d else JStr []) = ?d"
    by simp
  have "TodoItem_new r (?p (js ''text'')) (?p (js ''groupId'')) (?p (js ''completed'')) ?d
          (?p (js ''id'')) = Inr ?t"
    using assms unfolding tx
    by (simp only: TodoItem_new_valid dd jsval.case)
  then have e: "TodoItem_fromJSON r (JObj fs) = Inr ?t"
    by (simp add: TodoItem_fromJSON_def Let_def del: get_prop.simps)
  have c: "map_of fs (js ''completed'') = None \<longrightarrow> t_completed ?t = False"
    by simp
  have d: "map_of fs (js ''description'') = None \<longrightarrow> t_description ?t = JStr []"
    by simp
  from e c d show ?thesis
    by (intro exI [of _ ?t]) (simp del: get_prop.simps)
qed

theorem fromJSON_coerces_optional_fields_witness:
  "validateText (get_prop ex_sparse_record (js ''text'')) = Inr ()
   \<and> validateGroupId (get_prop ex_sparse_record (js ''groupId'')) = Inr ()
   \<and> (\<exists>t. TodoItem_fromJSON (ex_load_reads 0) ex_sparse_record = Inr t
            \<and> t_completed t = True \<and> t_description t = JStr [])"
proof -
  have p: "get_prop ex_sparse_record (js ''text'') = JStr (js ''Buy milk'')"
    "get_prop ex_sparse_record (js ''groupId'') = JStr (js ''group_loyw3v28k3j9x2'')"
    "get_prop ex_sparse_record (js ''completed'') = JStr (js ''yes'')"
    "get_prop ex_sparse_record (js ''description'') = JUndefined"
    by (simp_all add: ex_sparse_record_def js_inject)
  have v: "validateText (get_prop ex_sparse_record (js ''text'')) = Inr ()"
    by (simp only: p Buy_milk_valid)
  have g: "validateGroupId (get_prop ex_sparse_record (js ''groupId'')) = Inr ()"
    unfolding p by (simp add: validateGroupId_def js_Nil)
  have c: "ToBoolean (JStr (js ''yes''))" "\<not> ToBoolean JUndefined"
    by (simp_all add: js_Nil)
  from fromJSON_coerces_optional_fields [OF v [unfolded ex_sparse_record_def]
      g [unfolded ex_sparse_record_def], of "ex_load_reads 0"]
  obtain t where t: "TodoItem_fromJSON (ex_load_reads 0) ex_sparse_record = Inr t"
      "t_completed t = ToBoolean (get_prop ex_sparse_record (js ''completed''))"
      "t_description t =
         (if ToBoolean (get_prop ex_sparse_record (js ''description''))
          then get_prop ex_sparse_record (js ''description'') else JStr [])"
    unfolding ex_sparse_record_def by blast
  from t(2,3) have "t_completed t = True" "t_description t = JStr []"
    by (simp_all only: p c if_False)
  with t(1) v g show ?thesis
    by blast
qed

end
